theory Spec2Isabelle
  imports Main "HOL-Library.Word"
begin

section \<open>JavaScript values shared by the components\<close>

text \<open>
  The numbers of the code (attempt counts, delays, deadlines, quality, frame rate) are
  modelled as \<open>int\<close>: every call site passes integers. They are rendered in decimal, as a
  template literal renders an integral number. \<open>NaN\<close>, the infinities and fractions are
  outside the model.
\<close>

definition digit_char :: "nat \<Rightarrow> char" where
  "digit_char d =
     (if d = 0 then CHR ''0'' else if d = 1 then CHR ''1'' else if d = 2 then CHR ''2''
      else if d = 3 then CHR ''3'' else if d = 4 then CHR ''4'' else if d = 5 then CHR ''5''
      else if d = 6 then CHR ''6'' else if d = 7 then CHR ''7'' else if d = 8 then CHR ''8''
      else CHR ''9'')"

fun string_of_nat :: "nat \<Rightarrow> string" where
  "string_of_nat n =
     (if n < 10 then [digit_char n] else string_of_nat (n div 10) @ [digit_char (n mod 10)])"

definition string_of_int :: "int \<Rightarrow> string" where
  "string_of_int i = (if i < 0 then CHR ''-'' # string_of_nat (nat (- i)) else string_of_nat (nat i))"

text \<open>
  A thrown value: an instance of \<open>Error\<close> with its message, or any other value, kept as
  the text \<open>String(value)\<close> gives for it.
\<close>

datatype thrown = Error string | NonError string

text \<open>\<open>formatError\<close>: the message of an \<open>Error\<close>, \<open>String(err)\<close> of anything else.\<close>

fun formatError :: "thrown \<Rightarrow> string" where
  "formatError (Error m) = m"
| "formatError (NonError s) = s"

section \<open>Retry/Timeout combinator (config/startup)\<close>

text \<open>
  \<open>withTimeout\<close> races the operation's promise against a timer. The environment says which
  of the two settles first: the promise resolves, the promise rejects, or the timer fires
  while the promise is still pending.
\<close>

datatype 'a race = Resolved 'a | Rejected thrown | TimerFirst

definition timeoutError :: "string \<Rightarrow> int \<Rightarrow> thrown" where
  "timeoutError name timeoutMs =
     Error (name @ '' timed out after '' @ string_of_int timeoutMs @ ''ms'')"

fun withTimeout :: "'a race \<Rightarrow> int \<Rightarrow> string \<Rightarrow> thrown + 'a" where
  "withTimeout (Resolved v) timeoutMs name = Inr v"
| "withTimeout (Rejected e) timeoutMs name = Inl e"
| "withTimeout TimerFirst timeoutMs name = Inl (timeoutError name timeoutMs)"

text \<open>
  What \<open>withRetry\<close> does besides returning: the console lines (kept as their data, not their
  text), each call of the operation with the deadline in force, and each sleep.
\<close>

datatype event =
    RetryLog string int int
  | Invoke string int int
  | FailLog string int int string
  | Sleep int

record check_opts =
  attempts :: "int option"
  delayMs :: "int option"
  timeoutMs :: "int option"

record retry_opts = check_opts +
  name :: string

definition failedAfter :: "string \<Rightarrow> int \<Rightarrow> thrown \<Rightarrow> thrown" where
  "failedAfter nm n lastErr =
     Error (nm @ '' failed after '' @ string_of_int n @ '' attempts: '' @ formatError lastErr)"

text \<open>
  The \<open>for\<close> loop of \<open>withRetry\<close>, from the value \<open>attempt\<close> of its counter and the value
  \<open>lastErr\<close> of its variable; \<open>nm\<close>, \<open>n\<close>, \<open>d\<close> and \<open>t\<close> stand for \<open>name\<close>, \<open>attempts\<close>,
  \<open>delayMs\<close> and \<open>timeoutMs\<close>. The operation \<open>fn\<close> is given by the outcome of the call made
  in attempt k. The result is the value returned or thrown, and the trace.
\<close>

function withRetry_loop ::
  "(int \<Rightarrow> 'a race) \<Rightarrow> string \<Rightarrow> int \<Rightarrow> int \<Rightarrow> int \<Rightarrow> int \<Rightarrow> thrown
     \<Rightarrow> (thrown + 'a) \<times> event list" where
  "withRetry_loop fn nm n d t attempt lastErr =
     (if attempt \<le> n then
        (let pre = (if attempt > 1 then [RetryLog nm attempt n] else []) @ [Invoke nm attempt t]
         in case withTimeout (fn attempt) t nm of
              Inr res \<Rightarrow> (Inr res, pre)
            | Inl err \<Rightarrow>
                (let post = FailLog nm attempt n (formatError err)
                              # (if attempt < n then [Sleep d] else []);
                     (r, tr) = withRetry_loop fn nm n d t (attempt + 1) err
                 in (r, pre @ post @ tr)))
      else (Inl (failedAfter nm n lastErr), []))"
  by pat_completeness auto
termination
  by (relation "measure (\<lambda>(fn, nm, n, d, t, attempt, lastErr). nat (n + 1 - attempt))") auto

definition withRetry :: "(int \<Rightarrow> 'a race) \<Rightarrow> retry_opts \<Rightarrow> (thrown + 'a) \<times> event list" where
  "withRetry fn opts =
     withRetry_loop fn (name opts)
       (case attempts opts of None \<Rightarrow> 10 | Some a \<Rightarrow> a)
       (case delayMs opts of None \<Rightarrow> 1500 | Some a \<Rightarrow> a)
       (case timeoutMs opts of None \<Rightarrow> 15000 | Some a \<Rightarrow> a)
       1 (NonError ''undefined'')"

section \<open>Dependency readiness checks (config/startup)\<close>

text \<open>
  The values of the validated environment that the checks print into their names, as a
  template literal renders them. The module that loads them is outside the model.
\<close>

record config =
  REDIS_URL :: string
  MINIO_ENDPOINT :: string
  MINIO_PORT :: string
  MINIO_BUCKET :: string
  GITHUB_APP_ID :: string

text \<open>
  The collaborators the checks call, each given by the outcome of the call made in attempt
  k against the deadline in force; \<open>validateEnv\<close> by the value it throws, if any.
\<close>

record services =
  redis_ping :: "int \<Rightarrow> string race"
  ensureBucket :: "int \<Rightarrow> unit race"
  checkGitHubAppAuth :: "int \<Rightarrow> unit race"
  warmupBundle :: "int \<Rightarrow> unit race"
  validateEnv :: "thrown option"

datatype ServiceRole = Api | Worker

definition no_opts :: check_opts where
  "no_opts = \<lparr>attempts = None, delayMs = None, timeoutMs = None\<rparr>"

text \<open>The operation of the Redis check: ping, and reject any reply other than \<open>PONG\<close>.\<close>

definition redis_fn :: "services \<Rightarrow> int \<Rightarrow> unit race" where
  "redis_fn svc k =
     (case redis_ping svc k of
        Resolved pong \<Rightarrow>
          if pong \<noteq> ''PONG'' then Rejected (Error (''Unexpected Redis PING response: '' @ pong))
          else Resolved ()
      | Rejected e \<Rightarrow> Rejected e
      | TimerFirst \<Rightarrow> TimerFirst)"

definition redis_name :: "config \<Rightarrow> string" where
  "redis_name cfg = ''Redis reachable (REDIS_URL='' @ REDIS_URL cfg @ '')''"

definition minio_name :: "config \<Rightarrow> string" where
  "minio_name cfg =
     ''MinIO reachable (endpoint='' @ MINIO_ENDPOINT cfg @ '':'' @ MINIO_PORT cfg
       @ '', bucket='' @ MINIO_BUCKET cfg @ '')''"

definition github_name :: "config \<Rightarrow> string" where
  "github_name cfg = ''GitHub reachable + App auth valid (appId='' @ GITHUB_APP_ID cfg @ '')''"

definition warmup_name :: string where
  "warmup_name = ''Remotion bundle warmup''"

definition checkRedisReachable ::
  "config \<Rightarrow> services \<Rightarrow> check_opts \<Rightarrow> (thrown + unit) \<times> event list" where
  "checkRedisReachable cfg svc opts =
     withRetry (redis_fn svc)
       \<lparr>attempts = Some (case attempts opts of None \<Rightarrow> 10 | Some a \<Rightarrow> a),
        delayMs = Some (case delayMs opts of None \<Rightarrow> 1500 | Some a \<Rightarrow> a),
        timeoutMs = Some (case timeoutMs opts of None \<Rightarrow> 5000 | Some a \<Rightarrow> a),
        name = redis_name cfg\<rparr>"

definition checkMinioReachable ::
  "config \<Rightarrow> services \<Rightarrow> check_opts \<Rightarrow> (thrown + unit) \<times> event list" where
  "checkMinioReachable cfg svc opts =
     withRetry (ensureBucket svc)
       \<lparr>attempts = Some (case attempts opts of None \<Rightarrow> 10 | Some a \<Rightarrow> a),
        delayMs = Some (case delayMs opts of None \<Rightarrow> 2000 | Some a \<Rightarrow> a),
        timeoutMs = Some (case timeoutMs opts of None \<Rightarrow> 15000 | Some a \<Rightarrow> a),
        name = minio_name cfg\<rparr>"

definition checkGitHubAppReachable ::
  "config \<Rightarrow> services \<Rightarrow> check_opts \<Rightarrow> (thrown + unit) \<times> event list" where
  "checkGitHubAppReachable cfg svc opts =
     withRetry (checkGitHubAppAuth svc)
       \<lparr>attempts = Some (case attempts opts of None \<Rightarrow> 5 | Some a \<Rightarrow> a),
        delayMs = Some (case delayMs opts of None \<Rightarrow> 2000 | Some a \<Rightarrow> a),
        timeoutMs = Some (case timeoutMs opts of None \<Rightarrow> 15000 | Some a \<Rightarrow> a),
        name = github_name cfg\<rparr>"

definition checkRendererWarmup :: "services \<Rightarrow> (thrown + unit) \<times> event list" where
  "checkRendererWarmup svc =
     withRetry (warmupBundle svc)
       \<lparr>attempts = Some 3, delayMs = Some 2000, timeoutMs = Some 120000, name = warmup_name\<rparr>"

text \<open>
  \<open>await first; rest\<close>: a rejection of the awaited check leaves the function at once,
  otherwise the rest runs after it.
\<close>

definition await_then ::
  "(thrown + unit) \<times> event list \<Rightarrow> (thrown + unit) \<times> event list \<Rightarrow> (thrown + unit) \<times> event list"
  where
  "await_then first rest =
     (case first of
        (Inl e, tr) \<Rightarrow> (Inl e, tr)
      | (Inr u, tr) \<Rightarrow> (fst rest, tr @ snd rest))"

text \<open>\<open>runStartupChecks\<close>; its banner and check-mark console lines are left out.\<close>

definition runStartupChecks ::
  "ServiceRole \<Rightarrow> config \<Rightarrow> services \<Rightarrow> (thrown + unit) \<times> event list" where
  "runStartupChecks role cfg svc =
     (case validateEnv svc of
        Some e \<Rightarrow> (Inl e, [])
      | None \<Rightarrow>
          await_then (checkRedisReachable cfg svc no_opts)
            (await_then (checkMinioReachable cfg svc no_opts)
               (await_then (checkGitHubAppReachable cfg svc no_opts)
                  (if role = Worker then checkRendererWarmup svc else (Inr (), [])))))"

section \<open>Readiness endpoint (routes/health)\<close>

record checks =
  server :: bool
  redis :: bool
  minio :: bool
  github :: bool

record ready_response =
  status :: string
  checks :: checks
  timestamp :: string
  code :: nat

text \<open>\<open>try { await check; flag = true } catch { flag = false }\<close>\<close>

definition try_check :: "(thrown + unit) \<times> event list \<Rightarrow> bool" where
  "try_check r = (case fst r of Inl e \<Rightarrow> False | Inr u \<Rightarrow> True)"

text \<open>
  The handler of \<open>GET /ready\<close>: the response and what the three probes did. \<open>now\<close> is the
  text of \<open>new Date().toISOString()\<close>.
\<close>

definition ready_handler :: "config \<Rightarrow> services \<Rightarrow> string \<Rightarrow> ready_response \<times> event list" where
  "ready_handler cfg svc now =
     (let r1 = checkRedisReachable cfg svc \<lparr>attempts = Some 1, delayMs = Some 0, timeoutMs = Some 1500\<rparr>;
          r2 = checkMinioReachable cfg svc \<lparr>attempts = Some 1, delayMs = Some 0, timeoutMs = Some 4000\<rparr>;
          r3 = checkGitHubAppReachable cfg svc \<lparr>attempts = Some 1, delayMs = Some 0, timeoutMs = Some 4000\<rparr>;
          cs = \<lparr>server = True, redis = try_check r1, minio = try_check r2, github = try_check r3\<rparr>;
          allHealthy = (server cs \<and> redis cs \<and> minio cs \<and> github cs)
      in (\<lparr>status = (if allHealthy then ''ready'' else ''degraded''),
           checks = cs,
           timestamp = now,
           code = (if allHealthy then 200 else 503)\<rparr>,
          snd r1 @ snd r2 @ snd r3))"

section \<open>Transcode stage (services/ffmpeg)\<close>

type_synonym bytes = "8 word list"

type_synonym path = string

text \<open>The temporary directory's files: the content stored at each path, if any.\<close>

type_synonym fs = "path \<Rightarrow> bytes option"

record transcode_options =
  quality :: "int option"
  fps :: "int option"

text \<open>
  What one call reads from its surroundings: the directory \<open>TEMP_DIR\<close> (a constant of the
  renderer module), the clock and the random suffix at each of the two file names, the
  fault (if any) of \<open>writeFile\<close> with what it leaves at the path, the subprocess as a
  function of its command line and the files, the fault of \<open>readFile\<close> on an existing
  file, and the fault of \<open>unlink\<close> on an existing file.
\<close>

record transcode_env =
  TEMP_DIR :: path
  now_in :: int
  rand_in :: string
  now_out :: int
  rand_out :: string
  write_fault :: "(thrown \<times> bytes option) option"
  execAsync :: "string \<Rightarrow> fs \<Rightarrow> (thrown + string \<times> string) \<times> fs"
  read_fault :: "thrown option"
  unlink_fault :: "path \<Rightarrow> thrown option"

datatype fs_op = OpWrite path | OpExec string | OpRead path | OpUnlink path

text \<open>\<open>path.join\<close> of a directory and a file name (no normalisation of the directory).\<close>

definition join :: "path \<Rightarrow> string \<Rightarrow> path" where
  "join dir file = dir @ ''/'' @ file"

text \<open>\<open>String.prototype.includes\<close>\<close>

fun includes_str :: "string \<Rightarrow> string \<Rightarrow> bool" where
  "includes_str [] sub = (sub = [])"
| "includes_str (c # cs) sub = (take (length sub) (c # cs) = sub \<or> includes_str cs sub)"

definition writeFile :: "transcode_env \<Rightarrow> fs \<Rightarrow> path \<Rightarrow> bytes \<Rightarrow> (thrown + unit) \<times> fs" where
  "writeFile env files p buf =
     (case write_fault env of
        None \<Rightarrow> (Inr (), files(p := Some buf))
      | Some (e, left) \<Rightarrow> (Inl e, (case left of None \<Rightarrow> files | Some junk \<Rightarrow> files(p := Some junk))))"

definition readFile :: "transcode_env \<Rightarrow> fs \<Rightarrow> path \<Rightarrow> thrown + bytes" where
  "readFile env files p =
     (case files p of
        None \<Rightarrow> Inl (Error (''ENOENT: no such file or directory, open '' @ p))
      | Some buf \<Rightarrow> (case read_fault env of None \<Rightarrow> Inr buf | Some e \<Rightarrow> Inl e))"

definition unlink :: "transcode_env \<Rightarrow> fs \<Rightarrow> path \<Rightarrow> (thrown + unit) \<times> fs" where
  "unlink env files p =
     (case files p of
        None \<Rightarrow> (Inl (Error (''ENOENT: no such file or directory, unlink '' @ p)), files)
      | Some buf \<Rightarrow>
          (case unlink_fault env p of
             None \<Rightarrow> (Inr (), files(p := None))
           | Some e \<Rightarrow> (Inl e, files)))"

text \<open>\<open>await unlink(p).catch(() => {})\<close>: the outcome of the removal is dropped.\<close>

definition unlink_catch :: "transcode_env \<Rightarrow> fs \<Rightarrow> path \<Rightarrow> fs" where
  "unlink_catch env files p = snd (unlink env files p)"

definition inputPath :: "transcode_env \<Rightarrow> path" where
  "inputPath env =
     join (TEMP_DIR env) (''input-'' @ string_of_int (now_in env) @ ''-'' @ rand_in env @ ''.mp4'')"

definition outputPath :: "transcode_env \<Rightarrow> path" where
  "outputPath env =
     join (TEMP_DIR env) (''output-'' @ string_of_int (now_out env) @ ''-'' @ rand_out env @ ''.webp'')"

definition dq :: string where
  "dq = [CHR 0x22]"

text \<open>The quality of the first variant: \<open>Math.max(60, Math.min(70, quality))\<close>.\<close>

definition adjustedQuality :: "int \<Rightarrow> int" where
  "adjustedQuality q = max 60 (min 70 q)"

text \<open>The command line of the first variant (\<open>-q:v\<close>, clamped quality, lossy).\<close>

definition ffmpegCommand :: "path \<Rightarrow> int \<Rightarrow> int \<Rightarrow> path \<Rightarrow> string" where
  "ffmpegCommand inp f q outp =
     ''ffmpeg -i '' @ dq @ inp @ dq @ '' -vf '' @ dq @ ''fps='' @ string_of_int f @ dq
       @ '' -c:v libwebp -q:v '' @ string_of_int (adjustedQuality q)
       @ '' -compression_level 6 -lossless 0 -loop 0 -an -vsync 0 -pix_fmt yuv420p -y ''
       @ dq @ outp @ dq"

text \<open>The command line of the second variant (\<open>-quality\<close>, the quality as given).\<close>

definition ffmpegCommand2 :: "path \<Rightarrow> int \<Rightarrow> int \<Rightarrow> path \<Rightarrow> string" where
  "ffmpegCommand2 inp f q outp =
     ''ffmpeg -i '' @ dq @ inp @ dq @ '' -vf '' @ dq @ ''fps='' @ string_of_int f @ dq
       @ '' -c:v libwebp -quality '' @ string_of_int q
       @ '' -compression_level 6 -method 6 -loop 0 -an -vsync 0 -pix_fmt yuv420p -y ''
       @ dq @ outp @ dq"

text \<open>
  The body of the \<open>try\<close> block up to the read of the output file: the value read or the
  value thrown, the files, and the operations made.
\<close>

definition try_block ::
  "string \<Rightarrow> transcode_env \<Rightarrow> fs \<Rightarrow> bytes \<Rightarrow> (thrown + bytes) \<times> fs \<times> fs_op list" where
  "try_block cmd env files videoBuffer =
     (case writeFile env files (inputPath env) videoBuffer of
        (Inl e, f1) \<Rightarrow> (Inl e, f1, [OpWrite (inputPath env)])
      | (Inr u, f1) \<Rightarrow>
          (case execAsync env cmd f1 of
             (Inl e, f2) \<Rightarrow> (Inl e, f2, [OpWrite (inputPath env), OpExec cmd])
           | (Inr (stdout, stderr), f2) \<Rightarrow>
               if stderr \<noteq> [] \<and> includes_str stderr ''Error''
               then (Inl (Error (''FFmpeg conversion failed: '' @ stderr)), f2,
                     [OpWrite (inputPath env), OpExec cmd])
               else (readFile env f2 (outputPath env), f2,
                     [OpWrite (inputPath env), OpExec cmd, OpRead (outputPath env)])))"

text \<open>
  The two variants of \<open>convertVideoToWebP\<close> differ in the command line only, which is a
  parameter here. The first branch is the rest of the \<open>try\<close> block after the read, the
  second is the \<open>catch\<close> block, which rethrows, wrapping an \<open>Error\<close>. The console lines
  are left out.
\<close>

definition convert_with ::
  "(path \<Rightarrow> int \<Rightarrow> int \<Rightarrow> path \<Rightarrow> string) \<Rightarrow> transcode_env \<Rightarrow> fs \<Rightarrow> bytes
     \<Rightarrow> transcode_options option \<Rightarrow> (thrown + bytes) \<times> fs \<times> fs_op list" where
  "convert_with command env files videoBuffer options =
     (let q = (case options of None \<Rightarrow> 85 | Some opts \<Rightarrow> (case quality opts of None \<Rightarrow> 85 | Some v \<Rightarrow> v));
          f = (case options of None \<Rightarrow> 30 | Some opts \<Rightarrow> (case fps opts of None \<Rightarrow> 30 | Some v \<Rightarrow> v));
          cmd = command (inputPath env) f q (outputPath env)
      in case try_block cmd env files videoBuffer of
           (Inr webpBuffer, f2, ops) \<Rightarrow>
             (let f3 = unlink_catch env f2 (inputPath env);
                  f4 = unlink_catch env f3 (outputPath env)
              in (Inr webpBuffer, f4, ops @ [OpUnlink (inputPath env), OpUnlink (outputPath env)]))
         | (Inl error, f2, ops) \<Rightarrow>
             (let f3 = unlink_catch env f2 (inputPath env);
                  f4 = unlink_catch env f3 (outputPath env)
              in (Inl (case error of
                         Error m \<Rightarrow> Error (''Failed to convert video to WebP: '' @ m)
                       | NonError v \<Rightarrow> NonError v),
                  f4, ops @ [OpUnlink (inputPath env), OpUnlink (outputPath env)])))"

definition convertVideoToWebP ::
  "transcode_env \<Rightarrow> fs \<Rightarrow> bytes \<Rightarrow> transcode_options option \<Rightarrow> (thrown + bytes) \<times> fs \<times> fs_op list"
  where
  "convertVideoToWebP = convert_with ffmpegCommand"

definition convertVideoToWebP2 ::
  "transcode_env \<Rightarrow> fs \<Rightarrow> bytes \<Rightarrow> transcode_options option \<Rightarrow> (thrown + bytes) \<times> fs \<times> fs_op list"
  where
  "convertVideoToWebP2 = convert_with ffmpegCommand2"

section \<open>Shared rendering-engine handle (remotion browser)\<close>

record RemotionBrowserOptions =
  chromiumOptions :: "string option"
  browserExecutable :: "string option"

text \<open>A promise of \<open>openBrowser\<close>: pending, fulfilled with a browser, or rejected.\<close>

datatype promise_state = Pending | Fulfilled nat | RejectedWith thrown

text \<open>
  The module's state: the variable \<open>browserPromise\<close> (\<open>None\<close> is \<open>null\<close>) holding the
  index of a promise, every promise \<open>openBrowser\<close> has returned so far with the options
  of its launch, and the browsers closed so far.
\<close>

record handle =
  browserPromise :: "nat option"
  promises :: "(RemotionBrowserOptions \<times> promise_state) list"
  closed :: "nat list"

definition initial_handle :: handle where
  "initial_handle = \<lparr>browserPromise = None, promises = [], closed = []\<rparr>"

text \<open>
  \<open>openBrowser\<close> (an async function of the renderer library) starts an engine and returns
  a new pending promise.
\<close>

definition openBrowser :: "RemotionBrowserOptions \<Rightarrow> handle \<Rightarrow> nat \<times> handle" where
  "openBrowser launch h = (length (promises h), h\<lparr>promises := promises h @ [(launch, Pending)]\<rparr>)"

definition getSharedRemotionBrowser :: "RemotionBrowserOptions \<Rightarrow> handle \<Rightarrow> nat \<times> handle" where
  "getSharedRemotionBrowser options h =
     (case browserPromise h of
        Some p \<Rightarrow> (p, h)
      | None \<Rightarrow>
          (case openBrowser
                  \<lparr>chromiumOptions = chromiumOptions options,
                   browserExecutable = browserExecutable options\<rparr> h of
             (p, h') \<Rightarrow> (p, h'\<lparr>browserPromise := Some p\<rparr>)))"

text \<open>What a holder of promise \<open>p\<close> observes.\<close>

definition observe :: "handle \<Rightarrow> nat \<Rightarrow> promise_state" where
  "observe h p = (if p < length (promises h) then snd (promises h ! p) else Pending)"

text \<open>The engine settles a pending promise.\<close>

definition settle :: "nat \<Rightarrow> promise_state \<Rightarrow> handle \<Rightarrow> handle" where
  "settle p outcome h =
     (if p < length (promises h) \<and> snd (promises h ! p) = Pending
      then h\<lparr>promises := (promises h)[p := (fst (promises h ! p), outcome)]\<rparr>
      else h)"

text \<open>
  \<open>closeSharedRemotionBrowser\<close>, run to its end once the awaited promise has settled:
  \<open>None\<close> while that promise is pending (the call has not returned), otherwise the value
  thrown or the normal return. A rejected promise makes \<open>await\<close> throw before the
  assignment \<open>browserPromise = null\<close>. \<open>close_fault\<close> is what \<open>b.close()\<close> throws, if
  anything.
\<close>

definition closeSharedRemotionBrowser ::
  "thrown option \<Rightarrow> handle \<Rightarrow> (thrown + unit) option \<times> handle" where
  "closeSharedRemotionBrowser close_fault h =
     (case browserPromise h of
        None \<Rightarrow> (Some (Inr ()), h)
      | Some p \<Rightarrow>
          (case observe h p of
             Pending \<Rightarrow> (None, h)
           | RejectedWith e \<Rightarrow> (Some (Inl e), h)
           | Fulfilled b \<Rightarrow>
               (Some (case close_fault of None \<Rightarrow> Inr () | Some e \<Rightarrow> Inl e),
                h\<lparr>browserPromise := None, closed := closed h @ [b]\<rparr>)))"

text \<open>
  A run of the process without teardown: calls of \<open>getSharedRemotionBrowser\<close> interleaved
  with the engine settling promises. The result lists the promise each call returned.
\<close>

datatype handle_event = Acquire RemotionBrowserOptions | Settle nat promise_state

fun run_handle :: "handle_event list \<Rightarrow> handle \<Rightarrow> nat list \<times> handle" where
  "run_handle [] h = ([], h)"
| "run_handle (Acquire options # evs) h =
     (case getSharedRemotionBrowser options h of
        (p, h') \<Rightarrow> (case run_handle evs h' of (ps, h'') \<Rightarrow> (p # ps, h'')))"
| "run_handle (Settle p outcome # evs) h = run_handle evs (settle p outcome h)"

section \<open>Job queue and worker pool\<close>

text \<open>
  Modelled from the spec: the worker pool (the render worker and its queue) is not among
  the sources. What follows is sections 3 and 4.5 of the specification: a job is queued on
  submission, becomes active when a worker dequeues it, and ends completed or failed; each
  of the W workers runs one job at a time and takes the next queued job, first in, first
  out, when it is free.
\<close>

datatype job_status = Queued | Active | Completed string | Failed string

record job =
  job_key :: "string \<times> string"
  job_status :: job_status

record pool =
  jobs :: "job list"
  workers :: "nat option list"
  dedup :: bool

definition initial_pool :: "nat \<Rightarrow> bool \<Rightarrow> pool" where
  "initial_pool W dd = \<lparr>jobs = [], workers = replicate W None, dedup = dd\<rparr>"

fun first_queued :: "job list \<Rightarrow> nat option" where
  "first_queued [] = None"
| "first_queued (j # js) =
     (if job_status j = Queued then Some 0 else map_option Suc (first_queued js))"

definition pending_key :: "pool \<Rightarrow> string \<times> string \<Rightarrow> bool" where
  "pending_key p k =
     list_ex (\<lambda>j. job_key j = k \<and> (job_status j = Queued \<or> job_status j = Active)) (jobs p)"

text \<open>
  Modelled from the spec: submission enqueues a job under its key; with deduplication a
  key that is still queued or active is rejected.
\<close>

definition submit :: "string \<times> string \<Rightarrow> pool \<Rightarrow> pool" where
  "submit k p =
     (if dedup p \<and> pending_key p k then p
      else p\<lparr>jobs := jobs p @ [\<lparr>job_key = k, job_status = Queued\<rparr>]\<rparr>)"

text \<open>
  Modelled from the spec: a free worker dequeues the next queued job and marks it active.
\<close>

definition dequeue :: "nat \<Rightarrow> pool \<Rightarrow> pool" where
  "dequeue w p =
     (if w < length (workers p) \<and> workers p ! w = None
      then (case first_queued (jobs p) of
              None \<Rightarrow> p
            | Some i \<Rightarrow> p\<lparr>jobs := (jobs p)[i := (jobs p ! i)\<lparr>job_status := Active\<rparr>],
                          workers := (workers p)[w := Some i]\<rparr>)
      else p)"

text \<open>
  Modelled from the spec: the pipeline of a worker ends; its job is marked completed with
  the URL or failed with the error, and the worker is free for the next job.
\<close>

definition finish :: "nat \<Rightarrow> string + string \<Rightarrow> pool \<Rightarrow> pool" where
  "finish w r p =
     (if w < length (workers p)
      then (case workers p ! w of
              None \<Rightarrow> p
            | Some i \<Rightarrow>
                p\<lparr>jobs := (jobs p)[i := (jobs p ! i)
                             \<lparr>job_status := (case r of Inl err \<Rightarrow> Failed err | Inr url \<Rightarrow> Completed url)\<rparr>],
                  workers := (workers p)[w := None]\<rparr>)
      else p)"

datatype pool_event = Submit "string \<times> string" | Dequeue nat | Finish nat "string + string"

fun pool_step :: "pool \<Rightarrow> pool_event \<Rightarrow> pool" where
  "pool_step p (Submit k) = submit k p"
| "pool_step p (Dequeue w) = dequeue w p"
| "pool_step p (Finish w r) = finish w r p"

definition run_pool :: "nat \<Rightarrow> bool \<Rightarrow> pool_event list \<Rightarrow> pool" where
  "run_pool W dd evs = foldl pool_step (initial_pool W dd) evs"

definition active_count :: "pool \<Rightarrow> nat" where
  "active_count p = length (filter (\<lambda>j. job_status j = Active) (jobs p))"

section \<open>Notions used to state the properties\<close>

text \<open>The calls of the operation and the sleeps of a trace, without the console lines.\<close>

fun is_sched :: "event \<Rightarrow> bool" where
  "is_sched (Invoke nm a t) = True"
| "is_sched (Sleep d) = True"
| "is_sched (RetryLog nm a n) = False"
| "is_sched (FailLog nm a n m) = False"

text \<open>
  Attempts \<open>a\<close> to \<open>m\<close> of the operation \<open>nm\<close> under deadline \<open>t\<close>, with one sleep of
  \<open>d\<close> after each attempt but the last.
\<close>

definition timeline :: "string \<Rightarrow> int \<Rightarrow> int \<Rightarrow> int \<Rightarrow> int \<Rightarrow> event list" where
  "timeline nm t d a m =
     concat (map (\<lambda>j. Invoke nm j t # (if j < m then [Sleep d] else [])) [a..m])"

text \<open>An attempt whose promise resolved before the timer fired.\<close>

fun is_resolved :: "'a race \<Rightarrow> bool" where
  "is_resolved (Resolved v) = True"
| "is_resolved (Rejected e) = False"
| "is_resolved TimerFirst = False"

text \<open>Some attempt among the first \<open>A\<close> succeeds.\<close>

definition passes :: "int \<Rightarrow> (int \<Rightarrow> 'a race) \<Rightarrow> bool" where
  "passes A fn = list_ex (\<lambda>k. is_resolved (fn k)) [1..A]"

text \<open>The number of attempts made: up to the first success, or all \<open>A\<close>.\<close>

definition attempts_made :: "int \<Rightarrow> (int \<Rightarrow> 'a race) \<Rightarrow> int" where
  "attempts_made A fn = (case find (\<lambda>k. is_resolved (fn k)) [1..A] of Some k \<Rightarrow> k | None \<Rightarrow> A)"

text \<open>The value a failed attempt leaves in \<open>lastErr\<close>.\<close>

definition attempt_error :: "'a race \<Rightarrow> int \<Rightarrow> string \<Rightarrow> thrown" where
  "attempt_error r t nm = (case withTimeout r t nm of Inl e \<Rightarrow> e | Inr v \<Rightarrow> NonError ''undefined'')"

text \<open>Every active job is the job some worker is running.\<close>

definition held :: "pool \<Rightarrow> bool" where
  "held p = (\<forall>i < length (jobs p). job_status (jobs p ! i) = Active
               \<longrightarrow> (\<exists>w < length (workers p). workers p ! w = Some i))"

text \<open>A call of \<open>getSharedRemotionBrowser\<close> among the events of a run.\<close>

fun is_acquire :: "handle_event \<Rightarrow> bool" where
  "is_acquire (Acquire options) = True"
| "is_acquire (Settle p outcome) = False"

text \<open>
  The state of promise \<open>p\<close> after the events, from its state \<open>s\<close> before them: the first
  settlement of \<open>p\<close> while it is pending decides it.
\<close>

fun outcome_of :: "nat \<Rightarrow> promise_state \<Rightarrow> handle_event list \<Rightarrow> promise_state" where
  "outcome_of p s [] = s"
| "outcome_of p s (Acquire options # evs) = outcome_of p s evs"
| "outcome_of p s (Settle q outcome # evs) =
     outcome_of p (if q = p \<and> s = Pending then outcome else s) evs"

section \<open>Properties of the retry/timeout combinator\<close>

declare withRetry_loop.simps [simp del]

lemma timeline_step:
  "a \<le> m \<Longrightarrow>
   timeline nm t d a m =
     Invoke nm a t # (if a < m then [Sleep d] else []) @ timeline nm t d (a + 1) m"
  by (simp add: timeline_def upto_rec1)

lemma timeline_empty: "m < a \<Longrightarrow> timeline nm t d a m = []"
  by (simp add: timeline_def)


lemma loop_done:
  "n < a \<Longrightarrow> withRetry_loop fn nm n d t a e0 = (Inl (failedAfter nm n e0), [])"
  by (simp add: withRetry_loop.simps)

lemma loop_ok:
  "a \<le> n \<Longrightarrow> withTimeout (fn a) t nm = Inr v \<Longrightarrow>
   withRetry_loop fn nm n d t a e0 =
     (Inr v, (if a > 1 then [RetryLog nm a n] else []) @ [Invoke nm a t])"
  by (subst withRetry_loop.simps) simp

lemma loop_retry:
  "a \<le> n \<Longrightarrow> withTimeout (fn a) t nm = Inl err \<Longrightarrow>
   withRetry_loop fn nm n d t a e0 =
     (fst (withRetry_loop fn nm n d t (a + 1) err),
      (if a > 1 then [RetryLog nm a n] else []) @ [Invoke nm a t]
        @ FailLog nm a n (formatError err) # (if a < n then [Sleep d] else [])
        @ snd (withRetry_loop fn nm n d t (a + 1) err))"
  by (subst withRetry_loop.simps) (simp add: split_beta)

lemma not_resolved_fails:
  "\<forall>v'. r \<noteq> Resolved v' \<Longrightarrow> \<exists>err. withTimeout r t nm = Inl err"
  by (cases r) auto


lemma loop_exhausted:
  "a \<le> n \<Longrightarrow> (\<forall>j. a \<le> j \<and> j \<le> n \<longrightarrow> (\<forall>v'. fn j \<noteq> Resolved v')) \<Longrightarrow>
   withTimeout (fn n) t nm = Inl e \<Longrightarrow>
   fst (withRetry_loop fn nm n d t a e0) = Inl (failedAfter nm n e) \<and>
   filter is_sched (snd (withRetry_loop fn nm n d t a e0)) = timeline nm t d a n"
proof (induction fn nm n d t a e0 rule: withRetry_loop.induct)
  case (1 fn nm n d t attempt lastErr)
  from 1(2,3) have "\<forall>v'. fn attempt \<noteq> Resolved v'" by simp
  then obtain err where err: "withTimeout (fn attempt) t nm = Inl err"
    using not_resolved_fails by blast
  show ?case
  proof (cases "attempt = n")
    case True
    with err 1(4) have ee: "err = e" by simp
    have nxt: "withRetry_loop fn nm n d t (attempt + 1) err = (Inl (failedAfter nm n err), [])"
      using True by (simp add: loop_done)
    show ?thesis
      unfolding loop_retry[of attempt n fn t nm err, OF 1(2) err] nxt
      using True ee by (simp add: timeline_step timeline_empty)
  next
    case False
    with 1(2) have lt: "attempt < n" by simp
    have IH: "fst (withRetry_loop fn nm n d t (attempt + 1) err) = Inl (failedAfter nm n e) \<and>
       filter is_sched (snd (withRetry_loop fn nm n d t (attempt + 1) err))
         = timeline nm t d (attempt + 1) n"
      using 1(1)[OF 1(2) refl err refl] lt 1(3,4) by simp
    show ?thesis
      using IH lt
      by (simp add: loop_retry[of attempt n fn t nm err, OF 1(2) err] timeline_step[of attempt n])
  qed
qed

lemma withRetry_explicit:
  "withRetry fn \<lparr>attempts = Some A, delayMs = Some D, timeoutMs = Some T, name = nm\<rparr>
     = withRetry_loop fn nm A D T 1 (NonError ''undefined'')"
  by (simp add: withRetry_def)



text \<open>
  C6, as the code has it. An attempt that the timer wins fails with the message
  \<open>name timed out after T ms\<close>, which names the operation and the deadline. When the last
  of \<open>A\<close> failed attempts timed out, the report of the combinator ends with that message;
  when the operation itself rejected with \<open>e\<close> there, the report ends with the message of
  \<open>e\<close>. The two reports are equal exactly when the message of \<open>e\<close> is itself the timeout
  text: the combinator keeps the message of the last error word for word, and the two cases
  are told apart whenever the operation's own message is not that text.
\<close>

theorem timeout_report:
  fixes fn gn :: "int \<Rightarrow> 'a race"
  shows
  "withTimeout (TimerFirst :: 'a race) T nm
     = Inl (Error (nm @ '' timed out after '' @ string_of_int T @ ''ms''))
   \<and> (1 \<le> A \<and> (\<forall>j. 1 \<le> j \<and> j < A \<longrightarrow> (\<forall>v'. fn j \<noteq> Resolved v' \<and> gn j \<noteq> Resolved v'))
        \<and> fn A = TimerFirst \<and> gn A = Rejected e
      \<longrightarrow> fst (withRetry fn \<lparr>attempts = Some A, delayMs = Some D, timeoutMs = Some T, name = nm\<rparr>)
            = Inl (Error (nm @ '' failed after '' @ string_of_int A @ '' attempts: ''
                           @ nm @ '' timed out after '' @ string_of_int T @ ''ms''))
          \<and> fst (withRetry gn \<lparr>attempts = Some A, delayMs = Some D, timeoutMs = Some T, name = nm\<rparr>)
            = Inl (Error (nm @ '' failed after '' @ string_of_int A @ '' attempts: '' @ formatError e))
          \<and> (fst (withRetry fn \<lparr>attempts = Some A, delayMs = Some D, timeoutMs = Some T, name = nm\<rparr>)
               = fst (withRetry gn \<lparr>attempts = Some A, delayMs = Some D, timeoutMs = Some T, name = nm\<rparr>)
             \<longleftrightarrow> formatError e = nm @ '' timed out after '' @ string_of_int T @ ''ms''))"
proof (intro conjI impI)
  show "withTimeout (TimerFirst :: 'a race) T nm
     = Inl (Error (nm @ '' timed out after '' @ string_of_int T @ ''ms''))"
    by (simp add: timeoutError_def)
next
  assume h: "1 \<le> A \<and> (\<forall>j. 1 \<le> j \<and> j < A \<longrightarrow> (\<forall>v'. fn j \<noteq> Resolved v' \<and> gn j \<noteq> Resolved v'))
        \<and> fn A = TimerFirst \<and> gn A = Rejected e"
  have f: "fst (withRetry_loop fn nm A D T 1 (NonError ''undefined''))
             = Inl (failedAfter nm A (timeoutError nm T))"
  proof -
    have "\<forall>j. 1 \<le> j \<and> j \<le> A \<longrightarrow> (\<forall>v'. fn j \<noteq> Resolved v')"
      using h by (metis race.distinct(3) order_le_less)
    moreover have "withTimeout (fn A) T nm = Inl (timeoutError nm T)" using h by simp
    ultimately show ?thesis using h loop_exhausted[of 1 A fn T nm] by blast
  qed
  have g: "fst (withRetry_loop gn nm A D T 1 (NonError ''undefined''))
             = Inl (failedAfter nm A e)"
  proof -
    have "\<forall>j. 1 \<le> j \<and> j \<le> A \<longrightarrow> (\<forall>v'. gn j \<noteq> Resolved v')"
      using h by (metis race.distinct(1) order_le_less)
    moreover have "withTimeout (gn A) T nm = Inl e" using h by simp
    ultimately show ?thesis using h loop_exhausted[of 1 A gn T nm] by blast
  qed
  show "fst (withRetry fn \<lparr>attempts = Some A, delayMs = Some D, timeoutMs = Some T, name = nm\<rparr>)
            = Inl (Error (nm @ '' failed after '' @ string_of_int A @ '' attempts: ''
                           @ nm @ '' timed out after '' @ string_of_int T @ ''ms''))"
    using f by (simp add: withRetry_explicit failedAfter_def timeoutError_def)
  show "fst (withRetry gn \<lparr>attempts = Some A, delayMs = Some D, timeoutMs = Some T, name = nm\<rparr>)
            = Inl (Error (nm @ '' failed after '' @ string_of_int A @ '' attempts: '' @ formatError e))"
    using g by (simp add: withRetry_explicit failedAfter_def)
  show "fst (withRetry fn \<lparr>attempts = Some A, delayMs = Some D, timeoutMs = Some T, name = nm\<rparr>)
               = fst (withRetry gn \<lparr>attempts = Some A, delayMs = Some D, timeoutMs = Some T, name = nm\<rparr>)
             \<longleftrightarrow> formatError e = nm @ '' timed out after '' @ string_of_int T @ ''ms''"
    using f g by (auto simp add: withRetry_explicit failedAfter_def timeoutError_def)
qed

theorem timeout_report_witness:
  "fst (withRetry (\<lambda>k. TimerFirst :: unit race)
          \<lparr>attempts = Some 2, delayMs = Some 10, timeoutMs = Some 5, name = ''op''\<rparr>)
     = Inl (Error ''op failed after 2 attempts: op timed out after 5ms'')
   \<and> fst (withRetry (\<lambda>k. Rejected (Error ''connection refused'') :: unit race)
          \<lparr>attempts = Some 2, delayMs = Some 10, timeoutMs = Some 5, name = ''op''\<rparr>)
     = Inl (Error ''op failed after 2 attempts: connection refused'')
   \<and> fst (withRetry (\<lambda>k. TimerFirst :: unit race)
          \<lparr>attempts = Some 2, delayMs = Some 10, timeoutMs = Some 5, name = ''op''\<rparr>)
     \<noteq> fst (withRetry (\<lambda>k. Rejected (Error ''connection refused'') :: unit race)
          \<lparr>attempts = Some 2, delayMs = Some 10, timeoutMs = Some 5, name = ''op''\<rparr>)"
proof -
  let ?f = "\<lambda>k::int. TimerFirst :: unit race"
  let ?g = "\<lambda>k::int. Rejected (Error ''connection refused'') :: unit race"
  have h: "1 \<le> (2::int) \<and> (\<forall>j. 1 \<le> j \<and> j < 2 \<longrightarrow> (\<forall>v'. ?f j \<noteq> Resolved v' \<and> ?g j \<noteq> Resolved v'))
        \<and> ?f 2 = TimerFirst \<and> ?g 2 = Rejected (Error ''connection refused'')"
    by simp
  have s: "string_of_int 2 = ''2''" "string_of_int 5 = ''5''"
    by (simp_all add: string_of_int_def digit_char_def)
  from timeout_report[of 5 "''op''" 2 ?f ?g "Error ''connection refused''" 10] h
  show ?thesis by (simp add: s)
qed

text \<open>
  C6 as stated fails: an operation that rejects with an error whose message is the timeout
  text gives the same report, and the same trace, as an attempt that timed out.
\<close>

theorem timeout_report_counterexample:
  "(TimerFirst :: unit race) \<noteq> Rejected (Error ''op timed out after 5ms'')
   \<and> withRetry (\<lambda>k. TimerFirst :: unit race)
        \<lparr>attempts = Some 1, delayMs = Some 0, timeoutMs = Some 5, name = ''op''\<rparr>
     = withRetry (\<lambda>k. Rejected (Error ''op timed out after 5ms'') :: unit race)
        \<lparr>attempts = Some 1, delayMs = Some 0, timeoutMs = Some 5, name = ''op''\<rparr>"
  by (simp add: withRetry_def withRetry_loop.simps timeoutError_def string_of_int_def digit_char_def)

section \<open>Properties of the readiness checks\<close>

lemma resolved_ok: "is_resolved r \<Longrightarrow> \<exists>v. withTimeout r t nm = Inr v"
  by (cases r) auto

lemma unresolved_fails: "\<not> is_resolved r \<Longrightarrow> withTimeout r t nm = Inl (attempt_error r t nm)"
  by (cases r) (auto simp: attempt_error_def)

lemma find_Some_mem: "find P xs = Some x \<Longrightarrow> x \<in> set xs \<and> P x"
  by (induction xs) (auto split: if_splits)

lemma loop_schedule:
  "filter is_sched (snd (withRetry_loop fn nm n d t a e0))
     = timeline nm t d a (case find (\<lambda>k. is_resolved (fn k)) [a..n] of Some k \<Rightarrow> k | None \<Rightarrow> n)"
proof (induction fn nm n d t a e0 rule: withRetry_loop.induct)
  case (1 fn nm n d t attempt lastErr)
  show ?case
  proof (cases "attempt \<le> n")
    case False
    then show ?thesis by (simp add: loop_done timeline_empty)
  next
    case le: True
    show ?thesis
    proof (cases "is_resolved (fn attempt)")
      case True
      then obtain v where v: "withTimeout (fn attempt) t nm = Inr v"
        using resolved_ok by blast
      show ?thesis using True le
        by (simp add: loop_ok[of attempt n fn t nm v, OF le v] upto_rec1[of attempt n] timeline_step timeline_empty)
    next
      case False
      then have err: "withTimeout (fn attempt) t nm = Inl (attempt_error (fn attempt) t nm)"
        by (rule unresolved_fails)
      note IH = 1(1)[OF le refl err refl]
      show ?thesis
      proof (cases "attempt < n")
        case True
        have k: "attempt < (case find (\<lambda>k. is_resolved (fn k)) [attempt + 1..n] of Some k \<Rightarrow> k | None \<Rightarrow> n)"
          using True by (auto split: option.splits dest: find_Some_mem)
        show ?thesis using False le True IH k
          by (simp add: loop_retry[of attempt n fn t nm _, OF le err] upto_rec1[of attempt n] timeline_step)
      next
        case F2: False
        with le have eq: "attempt = n" by simp
        have nxt: "withRetry_loop fn nm n d t (attempt + 1) (attempt_error (fn attempt) t nm)
                     = (Inl (failedAfter nm n (attempt_error (fn attempt) t nm)), [])"
          using eq by (simp add: loop_done)
        show ?thesis
          unfolding loop_retry[of attempt n fn t nm _, OF le err] nxt
          using False eq by (simp add: upto_rec1[of n n] timeline_step timeline_empty)
      qed
    qed
  qed
qed


lemma loop_result:
  fixes fn :: "int \<Rightarrow> unit race"
  shows "a \<le> n \<Longrightarrow>
   fst (withRetry_loop fn nm n d t a e0)
     = (if list_ex (\<lambda>k. is_resolved (fn k)) [a..n] then Inr ()
        else Inl (failedAfter nm n (attempt_error (fn n) t nm)))"
proof (induction fn nm n d t a e0 rule: withRetry_loop.induct)
  case (1 fn nm n d t attempt lastErr)
  note le = 1(2)
  show ?case
  proof (cases "is_resolved (fn attempt)")
    case True
    then obtain v where v: "withTimeout (fn attempt) t nm = Inr v"
      using resolved_ok by blast
    show ?thesis using True
      by (simp add: loop_ok[of attempt n fn t nm v, OF le v] upto_rec1[of attempt n] le)
  next
    case False
    then have err: "withTimeout (fn attempt) t nm = Inl (attempt_error (fn attempt) t nm)"
      by (rule unresolved_fails)
    show ?thesis
    proof (cases "attempt < n")
      case True
      then have "attempt + 1 \<le> n" by simp
      from 1(1)[OF le refl err refl this] show ?thesis using False le
        by (simp add: loop_retry[of attempt n fn t nm _, OF le err] upto_rec1[of attempt n])
    next
      case F2: False
      with le have eq: "attempt = n" by simp
      have nxt: "withRetry_loop fn nm n d t (attempt + 1) (attempt_error (fn attempt) t nm)
                   = (Inl (failedAfter nm n (attempt_error (fn attempt) t nm)), [])"
        using eq by (simp add: loop_done)
      show ?thesis
        unfolding loop_retry[of attempt n fn t nm _, OF le err] nxt
        using False eq by (simp add: upto_rec1[of n n])
    qed
  qed
qed

lemma check_result:
  fixes fn :: "int \<Rightarrow> unit race"
  shows "1 \<le> A \<Longrightarrow>
    fst (withRetry fn \<lparr>attempts = Some A, delayMs = Some D, timeoutMs = Some T, name = nm\<rparr>)
      = (if passes A fn then Inr () else Inl (failedAfter nm A (attempt_error (fn A) T nm)))"
  by (simp add: withRetry_explicit loop_result passes_def)

lemma check_schedule:
  "filter is_sched
     (snd (withRetry fn \<lparr>attempts = Some A, delayMs = Some D, timeoutMs = Some T, name = nm\<rparr>))
     = timeline nm T D 1 (attempts_made A fn)"
  by (simp add: withRetry_explicit loop_schedule attempts_made_def)

lemma await_then_fst:
  "fst (await_then first rest) = (case fst first of Inl e \<Rightarrow> Inl e | Inr u \<Rightarrow> fst rest)"
  by (simp add: await_then_def split: prod.splits sum.splits)

lemma await_then_snd:
  "snd (await_then first rest) = snd first @ (case fst first of Inl e \<Rightarrow> [] | Inr u \<Rightarrow> snd rest)"
  by (simp add: await_then_def split: prod.splits sum.splits)

lemma timeline_Invoke:
  "Invoke nm a t \<in> set (timeline nm' t' d a0 m) \<longleftrightarrow> (nm = nm' \<and> t = t' \<and> a0 \<le> a \<and> a \<le> m)"
  by (auto simp add: timeline_def)

lemma attempts_made_ge: "1 \<le> A \<Longrightarrow> 1 \<le> attempts_made A fn"
  by (auto simp add: attempts_made_def split: option.splits dest: find_Some_mem)

lemma sched_Invoke: "Invoke nm a t \<in> set tr \<longleftrightarrow> Invoke nm a t \<in> set (filter is_sched tr)"
  by simp

lemma startup_core:
  "(validateEnv svc = Some e0 \<longrightarrow> runStartupChecks role cfg svc = (Inl e0, []))
   \<and> (validateEnv svc = None \<longrightarrow>
        (fst (runStartupChecks role cfg svc) = Inr ()
           \<longleftrightarrow> passes 10 (redis_fn svc) \<and> passes 10 (ensureBucket svc)
               \<and> passes 5 (checkGitHubAppAuth svc) \<and> (role = Worker \<longrightarrow> passes 3 (warmupBundle svc)))
      \<and> (\<not> passes 10 (redis_fn svc) \<longrightarrow>
            fst (runStartupChecks role cfg svc)
              = Inl (Error (redis_name cfg @ '' failed after 10 attempts: ''
                     @ formatError (attempt_error (redis_fn svc 10) 5000 (redis_name cfg)))))
      \<and> (passes 10 (redis_fn svc) \<and> \<not> passes 10 (ensureBucket svc) \<longrightarrow>
            fst (runStartupChecks role cfg svc)
              = Inl (Error (minio_name cfg @ '' failed after 10 attempts: ''
                     @ formatError (attempt_error (ensureBucket svc 10) 15000 (minio_name cfg)))))
      \<and> (passes 10 (redis_fn svc) \<and> passes 10 (ensureBucket svc)
            \<and> \<not> passes 5 (checkGitHubAppAuth svc) \<longrightarrow>
            fst (runStartupChecks role cfg svc)
              = Inl (Error (github_name cfg @ '' failed after 5 attempts: ''
                     @ formatError (attempt_error (checkGitHubAppAuth svc 5) 15000 (github_name cfg)))))
      \<and> (passes 10 (redis_fn svc) \<and> passes 10 (ensureBucket svc)
            \<and> passes 5 (checkGitHubAppAuth svc) \<and> role = Worker \<and> \<not> passes 3 (warmupBundle svc) \<longrightarrow>
            fst (runStartupChecks role cfg svc)
              = Inl (Error (warmup_name @ '' failed after 3 attempts: ''
                     @ formatError (attempt_error (warmupBundle svc 3) 120000 warmup_name))))
      \<and> filter is_sched (snd (runStartupChecks role cfg svc))
          = timeline (redis_name cfg) 5000 1500 1 (attempts_made 10 (redis_fn svc))
            @ (if passes 10 (redis_fn svc)
               then timeline (minio_name cfg) 15000 2000 1 (attempts_made 10 (ensureBucket svc))
                 @ (if passes 10 (ensureBucket svc)
                    then timeline (github_name cfg) 15000 2000 1 (attempts_made 5 (checkGitHubAppAuth svc))
                      @ (if passes 5 (checkGitHubAppAuth svc) \<and> role = Worker
                         then timeline warmup_name 120000 2000 1 (attempts_made 3 (warmupBundle svc))
                         else [])
                    else [])
               else []))"
proof -
  have r: "fst (checkRedisReachable cfg svc no_opts)
      = (if passes 10 (redis_fn svc) then Inr ()
         else Inl (failedAfter (redis_name cfg) 10 (attempt_error (redis_fn svc 10) 5000 (redis_name cfg))))"
    by (simp add: checkRedisReachable_def no_opts_def check_result)
  have m: "fst (checkMinioReachable cfg svc no_opts)
      = (if passes 10 (ensureBucket svc) then Inr ()
         else Inl (failedAfter (minio_name cfg) 10 (attempt_error (ensureBucket svc 10) 15000 (minio_name cfg))))"
    by (simp add: checkMinioReachable_def no_opts_def check_result)
  have g: "fst (checkGitHubAppReachable cfg svc no_opts)
      = (if passes 5 (checkGitHubAppAuth svc) then Inr ()
         else Inl (failedAfter (github_name cfg) 5 (attempt_error (checkGitHubAppAuth svc 5) 15000 (github_name cfg))))"
    by (simp add: checkGitHubAppReachable_def no_opts_def check_result)
  have w: "fst (checkRendererWarmup svc)
      = (if passes 3 (warmupBundle svc) then Inr ()
         else Inl (failedAfter warmup_name 3 (attempt_error (warmupBundle svc 3) 120000 warmup_name)))"
    by (simp add: checkRendererWarmup_def check_result)
  have rs: "filter is_sched (snd (checkRedisReachable cfg svc no_opts))
      = timeline (redis_name cfg) 5000 1500 1 (attempts_made 10 (redis_fn svc))"
    by (simp add: checkRedisReachable_def no_opts_def check_schedule)
  have ms: "filter is_sched (snd (checkMinioReachable cfg svc no_opts))
      = timeline (minio_name cfg) 15000 2000 1 (attempts_made 10 (ensureBucket svc))"
    by (simp add: checkMinioReachable_def no_opts_def check_schedule)
  have gs: "filter is_sched (snd (checkGitHubAppReachable cfg svc no_opts))
      = timeline (github_name cfg) 15000 2000 1 (attempts_made 5 (checkGitHubAppAuth svc))"
    by (simp add: checkGitHubAppReachable_def no_opts_def check_schedule)
  have ws: "filter is_sched (snd (checkRendererWarmup svc))
      = timeline warmup_name 120000 2000 1 (attempts_made 3 (warmupBundle svc))"
    by (simp add: checkRendererWarmup_def check_schedule)
  have s10: "string_of_int 10 = ''10''" and s5: "string_of_int 5 = ''5''" and s3: "string_of_int 3 = ''3''"
    by (simp_all add: string_of_int_def digit_char_def)
show ?thesis
    by (simp add: runStartupChecks_def await_then_fst await_then_snd r m g w rs ms gs ws
          failedAfter_def s10 s5 s3)
qed

lemma startup_warmup:
  assumes v: "validateEnv svc = None"
  shows "(\<exists>a. Invoke warmup_name a 120000 \<in> set (snd (runStartupChecks role cfg svc)))
           \<longleftrightarrow> role = Worker \<and> passes 10 (redis_fn svc) \<and> passes 10 (ensureBucket svc)
                \<and> passes 5 (checkGitHubAppAuth svc)"
proof -
  have s: "filter is_sched (snd (runStartupChecks role cfg svc))
          = timeline (redis_name cfg) 5000 1500 1 (attempts_made 10 (redis_fn svc))
            @ (if passes 10 (redis_fn svc)
               then timeline (minio_name cfg) 15000 2000 1 (attempts_made 10 (ensureBucket svc))
                 @ (if passes 10 (ensureBucket svc)
                    then timeline (github_name cfg) 15000 2000 1 (attempts_made 5 (checkGitHubAppAuth svc))
                      @ (if passes 5 (checkGitHubAppAuth svc) \<and> role = Worker
                         then timeline warmup_name 120000 2000 1 (attempts_made 3 (warmupBundle svc))
                         else [])
                    else [])
               else [])"
    using startup_core[of svc _ role cfg] v by blast
  have a3: "1 \<le> attempts_made 3 (warmupBundle svc)" by (simp add: attempts_made_ge)
  show ?thesis
    unfolding sched_Invoke[of warmup_name _ 120000 "snd (runStartupChecks role cfg svc)"] s
    using a3 by (auto simp add: timeline_Invoke)
qed

text \<open>
  C8. \<open>runStartupChecks\<close> runs the checks one after the other with the defaults of the
  table: Redis 10 attempts, 1500 ms delay, 5000 ms deadline; MinIO 10, 2000, 15000; GitHub 5,
  2000, 15000; warmup 3, 2000, 120000. It succeeds exactly when every check that runs passes
  within its attempts; the first check that exhausts its attempts ends the startup with its
  aggregated error and no later check is called; the warmup is called exactly when the role
  is worker (and the checks before it passed). A failure of \<open>validateEnv\<close> ends the
  startup before any check.
\<close>

theorem startup_checks:
  "(validateEnv svc = Some e0 \<longrightarrow> runStartupChecks role cfg svc = (Inl e0, []))
   \<and> (validateEnv svc = None \<longrightarrow>
        (fst (runStartupChecks role cfg svc) = Inr ()
           \<longleftrightarrow> passes 10 (redis_fn svc) \<and> passes 10 (ensureBucket svc)
               \<and> passes 5 (checkGitHubAppAuth svc) \<and> (role = Worker \<longrightarrow> passes 3 (warmupBundle svc)))
      \<and> (\<not> passes 10 (redis_fn svc) \<longrightarrow>
            fst (runStartupChecks role cfg svc)
              = Inl (Error (redis_name cfg @ '' failed after 10 attempts: ''
                     @ formatError (attempt_error (redis_fn svc 10) 5000 (redis_name cfg)))))
      \<and> (passes 10 (redis_fn svc) \<and> \<not> passes 10 (ensureBucket svc) \<longrightarrow>
            fst (runStartupChecks role cfg svc)
              = Inl (Error (minio_name cfg @ '' failed after 10 attempts: ''
                     @ formatError (attempt_error (ensureBucket svc 10) 15000 (minio_name cfg)))))
      \<and> (passes 10 (redis_fn svc) \<and> passes 10 (ensureBucket svc)
            \<and> \<not> passes 5 (checkGitHubAppAuth svc) \<longrightarrow>
            fst (runStartupChecks role cfg svc)
              = Inl (Error (github_name cfg @ '' failed after 5 attempts: ''
                     @ formatError (attempt_error (checkGitHubAppAuth svc 5) 15000 (github_name cfg)))))
      \<and> (passes 10 (redis_fn svc) \<and> passes 10 (ensureBucket svc)
            \<and> passes 5 (checkGitHubAppAuth svc) \<and> role = Worker \<and> \<not> passes 3 (warmupBundle svc) \<longrightarrow>
            fst (runStartupChecks role cfg svc)
              = Inl (Error (warmup_name @ '' failed after 3 attempts: ''
                     @ formatError (attempt_error (warmupBundle svc 3) 120000 warmup_name))))
      \<and> filter is_sched (snd (runStartupChecks role cfg svc))
          = timeline (redis_name cfg) 5000 1500 1 (attempts_made 10 (redis_fn svc))
            @ (if passes 10 (redis_fn svc)
               then timeline (minio_name cfg) 15000 2000 1 (attempts_made 10 (ensureBucket svc))
                 @ (if passes 10 (ensureBucket svc)
                    then timeline (github_name cfg) 15000 2000 1 (attempts_made 5 (checkGitHubAppAuth svc))
                      @ (if passes 5 (checkGitHubAppAuth svc) \<and> role = Worker
                         then timeline warmup_name 120000 2000 1 (attempts_made 3 (warmupBundle svc))
                         else [])
                    else [])
               else [])
      \<and> ((\<exists>a. Invoke warmup_name a 120000 \<in> set (snd (runStartupChecks role cfg svc)))
           \<longleftrightarrow> role = Worker \<and> passes 10 (redis_fn svc) \<and> passes 10 (ensureBucket svc)
                \<and> passes 5 (checkGitHubAppAuth svc)))"
  using startup_core[of svc e0 role cfg] startup_warmup[of svc role cfg] by blast

theorem startup_checks_witness:
  "fst (runStartupChecks Api \<lparr>REDIS_URL = ''r'', MINIO_ENDPOINT = ''m'', MINIO_PORT = ''9000'', MINIO_BUCKET = ''b'', GITHUB_APP_ID = ''1''\<rparr>
      \<lparr>redis_ping = (\<lambda>k. if k = 1 then TimerFirst else Resolved ''PONG''),
       ensureBucket = (\<lambda>k. Resolved ()), checkGitHubAppAuth = (\<lambda>k. Resolved ()),
       warmupBundle = (\<lambda>k. Rejected (Error ''no bundle'')), validateEnv = None\<rparr>) = Inr ()
   \<and> fst (runStartupChecks Worker \<lparr>REDIS_URL = ''r'', MINIO_ENDPOINT = ''m'', MINIO_PORT = ''9000'', MINIO_BUCKET = ''b'', GITHUB_APP_ID = ''1''\<rparr>
      \<lparr>redis_ping = (\<lambda>k. if k = 1 then TimerFirst else Resolved ''PONG''),
       ensureBucket = (\<lambda>k. Resolved ()), checkGitHubAppAuth = (\<lambda>k. Resolved ()),
       warmupBundle = (\<lambda>k. Rejected (Error ''no bundle'')), validateEnv = None\<rparr>)
      = Inl (Error ''Remotion bundle warmup failed after 3 attempts: no bundle'')
   \<and> runStartupChecks Worker \<lparr>REDIS_URL = ''r'', MINIO_ENDPOINT = ''m'', MINIO_PORT = ''9000'', MINIO_BUCKET = ''b'', GITHUB_APP_ID = ''1''\<rparr>
      \<lparr>redis_ping = (\<lambda>k. Resolved ''PONG''),
       ensureBucket = (\<lambda>k. Resolved ()), checkGitHubAppAuth = (\<lambda>k. Resolved ()),
       warmupBundle = (\<lambda>k. Resolved ()), validateEnv = Some (Error ''bad env'')\<rparr>
      = (Inl (Error ''bad env''), [])"
proof -
  let ?cfg = "\<lparr>REDIS_URL = ''r'', MINIO_ENDPOINT = ''m'', MINIO_PORT = ''9000'', MINIO_BUCKET = ''b'', GITHUB_APP_ID = ''1''\<rparr>"
  let ?svc = "\<lparr>redis_ping = (\<lambda>k::int. if k = 1 then TimerFirst else Resolved ''PONG''),
       ensureBucket = (\<lambda>k::int. Resolved ()), checkGitHubAppAuth = (\<lambda>k::int. Resolved ()),
       warmupBundle = (\<lambda>k::int. Rejected (Error ''no bundle'')), validateEnv = None\<rparr>"
  let ?bad = "\<lparr>redis_ping = (\<lambda>k::int. Resolved ''PONG''),
       ensureBucket = (\<lambda>k::int. Resolved ()), checkGitHubAppAuth = (\<lambda>k::int. Resolved ()),
       warmupBundle = (\<lambda>k::int. Resolved ()), validateEnv = Some (Error ''bad env'')\<rparr>"
  have p: "passes 10 (redis_fn ?svc)" "passes 10 (ensureBucket ?svc)" "passes 5 (checkGitHubAppAuth ?svc)"
    "\<not> passes 3 (warmupBundle ?svc)"
    by (simp_all add: passes_def redis_fn_def upto_rec1)
  have e: "formatError (attempt_error (warmupBundle ?svc 3) 120000 warmup_name) = ''no bundle''"
    by (simp add: attempt_error_def)
  have v: "validateEnv ?svc = None" "validateEnv ?bad = Some (Error ''bad env'')" by simp_all
  from startup_checks[of ?svc _ Api ?cfg] p v
  have a: "fst (runStartupChecks Api ?cfg ?svc) = Inr ()" by simp
  from startup_checks[of ?svc _ Worker ?cfg] p v
  have b: "fst (runStartupChecks Worker ?cfg ?svc)
      = Inl (Error (warmup_name @ '' failed after 3 attempts: ''
                     @ formatError (attempt_error (warmupBundle ?svc 3) 120000 warmup_name)))"
    by blast
  from startup_checks[of ?bad "Error ''bad env''" Worker ?cfg] v
  have c: "runStartupChecks Worker ?cfg ?bad = (Inl (Error ''bad env''), [])" by blast
  show ?thesis using a b c unfolding e by (simp add: warmup_name_def)
qed

lemma loop_single:
  "withRetry_loop fn nm 1 d t 1 e0 =
     (case withTimeout (fn 1) t nm of
        Inr v \<Rightarrow> (Inr v, [Invoke nm 1 t])
      | Inl err \<Rightarrow> (Inl (failedAfter nm 1 err), [Invoke nm 1 t, FailLog nm 1 1 (formatError err)]))"
proof (cases "withTimeout (fn 1) t nm")
  case (Inl err)
  then show ?thesis
    by (simp add: loop_retry[of 1 1 fn t nm err] loop_done)
next
  case (Inr v)
  then show ?thesis
    by (simp add: loop_ok[of 1 1 fn t nm v])
qed

lemma probe_once:
  "withRetry fn \<lparr>attempts = Some 1, delayMs = Some D, timeoutMs = Some T, name = nm\<rparr> =
     (case withTimeout (fn 1) T nm of
        Inr v \<Rightarrow> (Inr v, [Invoke nm 1 T])
      | Inl err \<Rightarrow> (Inl (failedAfter nm 1 err), [Invoke nm 1 T, FailLog nm 1 1 (formatError err)]))"
  by (simp add: withRetry_explicit loop_single)

lemma probe_once_sched:
  "filter is_sched (snd (withRetry fn \<lparr>attempts = Some 1, delayMs = Some D, timeoutMs = Some T, name = nm\<rparr>))
     = [Invoke nm 1 T]"
  by (simp add: probe_once split: sum.splits)

lemma probe_once_ok:
  fixes fn :: "int \<Rightarrow> unit race"
  shows "try_check (withRetry fn \<lparr>attempts = Some 1, delayMs = Some D, timeoutMs = Some T, name = nm\<rparr>)
     = (fn 1 = Resolved ())"
  by (cases "fn 1") (simp_all add: probe_once try_check_def)

lemma redis_fn_ok: "redis_fn svc k = Resolved () \<longleftrightarrow> redis_ping svc k = Resolved ''PONG''"
  by (simp add: redis_fn_def split: race.splits)

text \<open>
  C7. The handler of the readiness endpoint calls each of the three probes exactly once
  (attempt 1 of 1, no sleep), under the deadlines 1500, 4000 and 4000 ms, whatever the
  outcome of the probes before it; it reports for each dependency whether its probe
  passed; and it answers \<open>ready\<close> with status 200 exactly when all three pass, and
  \<open>degraded\<close> with status 503 exactly when some probe fails.
\<close>

theorem ready_probe:
  "filter is_sched (snd (ready_handler cfg svc now))
     = [Invoke (redis_name cfg) 1 1500, Invoke (minio_name cfg) 1 4000, Invoke (github_name cfg) 1 4000]
   \<and> server (checks (fst (ready_handler cfg svc now)))
   \<and> redis (checks (fst (ready_handler cfg svc now))) = (redis_ping svc 1 = Resolved ''PONG'')
   \<and> minio (checks (fst (ready_handler cfg svc now))) = (ensureBucket svc 1 = Resolved ())
   \<and> github (checks (fst (ready_handler cfg svc now))) = (checkGitHubAppAuth svc 1 = Resolved ())
   \<and> ((status (fst (ready_handler cfg svc now)) = ''ready'' \<and> code (fst (ready_handler cfg svc now)) = 200)
        \<longleftrightarrow> (redis_ping svc 1 = Resolved ''PONG'' \<and> ensureBucket svc 1 = Resolved ()
              \<and> checkGitHubAppAuth svc 1 = Resolved ()))
   \<and> ((status (fst (ready_handler cfg svc now)) = ''degraded'' \<and> code (fst (ready_handler cfg svc now)) = 503)
        \<longleftrightarrow> \<not> (redis_ping svc 1 = Resolved ''PONG'' \<and> ensureBucket svc 1 = Resolved ()
              \<and> checkGitHubAppAuth svc 1 = Resolved ()))"
  by (simp add: ready_handler_def Let_def checkRedisReachable_def checkMinioReachable_def
        checkGitHubAppReachable_def probe_once_sched probe_once_ok redis_fn_ok)

theorem ready_probe_witness:
  "filter is_sched (snd (ready_handler
       \<lparr>REDIS_URL = ''r'', MINIO_ENDPOINT = ''m'', MINIO_PORT = ''9000'', MINIO_BUCKET = ''b'',
        GITHUB_APP_ID = ''1''\<rparr>
       \<lparr>redis_ping = (\<lambda>k. Resolved ''LOADING''), ensureBucket = (\<lambda>k. Resolved ()),
        checkGitHubAppAuth = (\<lambda>k. TimerFirst), warmupBundle = (\<lambda>k. Resolved ()),
        validateEnv = None\<rparr> ''t''))
     = [Invoke ''Redis reachable (REDIS_URL=r)'' 1 1500,
        Invoke ''MinIO reachable (endpoint=m:9000, bucket=b)'' 1 4000,
        Invoke ''GitHub reachable + App auth valid (appId=1)'' 1 4000]
   \<and> checks (fst (ready_handler
       \<lparr>REDIS_URL = ''r'', MINIO_ENDPOINT = ''m'', MINIO_PORT = ''9000'', MINIO_BUCKET = ''b'',
        GITHUB_APP_ID = ''1''\<rparr>
       \<lparr>redis_ping = (\<lambda>k. Resolved ''LOADING''), ensureBucket = (\<lambda>k. Resolved ()),
        checkGitHubAppAuth = (\<lambda>k. TimerFirst), warmupBundle = (\<lambda>k. Resolved ()),
        validateEnv = None\<rparr> ''t''))
     = \<lparr>server = True, redis = False, minio = True, github = False\<rparr>
   \<and> code (fst (ready_handler
       \<lparr>REDIS_URL = ''r'', MINIO_ENDPOINT = ''m'', MINIO_PORT = ''9000'', MINIO_BUCKET = ''b'',
        GITHUB_APP_ID = ''1''\<rparr>
       \<lparr>redis_ping = (\<lambda>k. Resolved ''LOADING''), ensureBucket = (\<lambda>k. Resolved ()),
        checkGitHubAppAuth = (\<lambda>k. TimerFirst), warmupBundle = (\<lambda>k. Resolved ()),
        validateEnv = None\<rparr> ''t'')) = 503"
  using ready_probe[of
       "\<lparr>REDIS_URL = ''r'', MINIO_ENDPOINT = ''m'', MINIO_PORT = ''9000'', MINIO_BUCKET = ''b'',
        GITHUB_APP_ID = ''1''\<rparr>"
       "\<lparr>redis_ping = (\<lambda>k. Resolved ''LOADING''), ensureBucket = (\<lambda>k. Resolved ()),
        checkGitHubAppAuth = (\<lambda>k. TimerFirst), warmupBundle = (\<lambda>k. Resolved ()),
        validateEnv = None\<rparr>" "''t''"]
  by (simp add: redis_name_def minio_name_def github_name_def)

section \<open>Properties of the transcode stage\<close>

lemma unlink_catch_removes:
  "unlink_fault env p = None \<Longrightarrow> unlink_catch env files p p = None"
  by (simp add: unlink_catch_def unlink_def split: option.splits)

lemma unlink_catch_absent:
  "files q = None \<Longrightarrow> unlink_catch env files p q = None"
  by (simp add: unlink_catch_def unlink_def split: option.splits)

lemma unlink_catch_fault_irrelevant_paths [simp]:
  "inputPath (env\<lparr>unlink_fault := u\<rparr>) = inputPath env"
  "outputPath (env\<lparr>unlink_fault := u\<rparr>) = outputPath env"
  by (simp_all add: inputPath_def outputPath_def)

lemma try_block_fault_irrelevant [simp]:
  "try_block cmd (env\<lparr>unlink_fault := u\<rparr>) files buf = try_block cmd env files buf"
  by (simp add: try_block_def writeFile_def readFile_def split: prod.splits sum.splits option.splits)

lemma convert_with_result:
  "fst (convert_with command env files buf options) =
     (case fst (try_block
                  (command (inputPath env)
                     (case options of None \<Rightarrow> 30 | Some opts \<Rightarrow> (case fps opts of None \<Rightarrow> 30 | Some v \<Rightarrow> v))
                     (case options of None \<Rightarrow> 85 | Some opts \<Rightarrow> (case quality opts of None \<Rightarrow> 85 | Some v \<Rightarrow> v))
                     (outputPath env))
                  env files buf) of
        Inr webp \<Rightarrow> Inr webp
      | Inl (Error m) \<Rightarrow> Inl (Error (''Failed to convert video to WebP: '' @ m))
      | Inl (NonError v) \<Rightarrow> Inl (NonError v))"
  by (simp add: convert_with_def Let_def split: prod.splits sum.splits thrown.splits)

lemma convert_with_swallows:
  "fst (convert_with command (env\<lparr>unlink_fault := u\<rparr>) files buf options)
     = fst (convert_with command env files buf options)"
  by (simp add: convert_with_result)

lemma convert_with_removes_input:
  "unlink_fault env (inputPath env) = None \<Longrightarrow>
   fst (snd (convert_with command env files buf options)) (inputPath env) = None"
  by (simp add: convert_with_def Let_def unlink_catch_removes unlink_catch_absent
        split: prod.splits sum.splits)

lemma convert_with_removes_output:
  "unlink_fault env (outputPath env) = None \<Longrightarrow>
   fst (snd (convert_with command env files buf options)) (outputPath env) = None"
  by (simp add: convert_with_def Let_def unlink_catch_removes
        split: prod.splits sum.splits)

lemma convert_with_ops:
  "\<exists>pre. snd (snd (convert_with command env files buf options))
      = OpWrite (inputPath env) # pre @ [OpUnlink (inputPath env), OpUnlink (outputPath env)]
    \<and> OpUnlink (inputPath env) \<notin> set pre \<and> OpUnlink (outputPath env) \<notin> set pre"
  by (auto simp add: convert_with_def Let_def try_block_def split: prod.splits sum.splits if_splits)

text \<open>
  C1. Both variants of \<open>convertVideoToWebP\<close>, for every buffer, options, directory
  content and behaviour of the file system and the subprocess: the last two operations of
  the call are the removal of the input file and the removal of the output file, on every
  path (write failure, subprocess failure, error diagnostic, unreadable output, success);
  after the call neither path holds a file, unless the removal of that very file failed;
  and the value returned or thrown does not depend on how the removals fare.
\<close>

theorem transcode_cleanup:
  "(\<exists>pre. snd (snd (convertVideoToWebP env files buf options))
            = OpWrite (inputPath env) # pre @ [OpUnlink (inputPath env), OpUnlink (outputPath env)])
   \<and> (unlink_fault env (inputPath env) = None
        \<longrightarrow> fst (snd (convertVideoToWebP env files buf options)) (inputPath env) = None)
   \<and> (unlink_fault env (outputPath env) = None
        \<longrightarrow> fst (snd (convertVideoToWebP env files buf options)) (outputPath env) = None)
   \<and> fst (convertVideoToWebP (env\<lparr>unlink_fault := u\<rparr>) files buf options)
       = fst (convertVideoToWebP env files buf options)
   \<and> (\<exists>pre. snd (snd (convertVideoToWebP2 env files buf options))
            = OpWrite (inputPath env) # pre @ [OpUnlink (inputPath env), OpUnlink (outputPath env)])
   \<and> (unlink_fault env (inputPath env) = None
        \<longrightarrow> fst (snd (convertVideoToWebP2 env files buf options)) (inputPath env) = None)
   \<and> (unlink_fault env (outputPath env) = None
        \<longrightarrow> fst (snd (convertVideoToWebP2 env files buf options)) (outputPath env) = None)
   \<and> fst (convertVideoToWebP2 (env\<lparr>unlink_fault := u\<rparr>) files buf options)
       = fst (convertVideoToWebP2 env files buf options)"
proof -
  obtain pre1 where p1: "snd (snd (convert_with ffmpegCommand env files buf options))
      = OpWrite (inputPath env) # pre1 @ [OpUnlink (inputPath env), OpUnlink (outputPath env)]"
    using convert_with_ops[of ffmpegCommand env files buf options] by blast
  obtain pre2 where p2: "snd (snd (convert_with ffmpegCommand2 env files buf options))
      = OpWrite (inputPath env) # pre2 @ [OpUnlink (inputPath env), OpUnlink (outputPath env)]"
    using convert_with_ops[of ffmpegCommand2 env files buf options] by blast
  show ?thesis
    unfolding convertVideoToWebP_def convertVideoToWebP2_def
    using p1 p2
    by (simp add: convert_with_swallows convert_with_removes_input convert_with_removes_output)
qed

lemma paths0:
  "inputPath \<lparr>TEMP_DIR = ''/tmp'', now_in = 1, rand_in = ''a'', now_out = 2, rand_out = ''b'',
       write_fault = w, execAsync = x, read_fault = r, unlink_fault = u\<rparr> = ''/tmp/input-1-a.mp4''"
  "outputPath \<lparr>TEMP_DIR = ''/tmp'', now_in = 1, rand_in = ''a'', now_out = 2, rand_out = ''b'',
       write_fault = w, execAsync = x, read_fault = r, unlink_fault = u\<rparr> = ''/tmp/output-2-b.webp''"
  by (simp_all add: inputPath_def outputPath_def join_def string_of_int_def digit_char_def)

theorem transcode_cleanup_witness:
  "fst (convertVideoToWebP
          \<lparr>TEMP_DIR = ''/tmp'', now_in = 1, rand_in = ''a'', now_out = 2, rand_out = ''b'',
           write_fault = None,
           execAsync = (\<lambda>cmd f. (Inl (Error ''Command failed''), f(''/tmp/output-2-b.webp'' := Some [0]))),
           read_fault = None, unlink_fault = (\<lambda>p. None)\<rparr>
          (\<lambda>p. None) [1, 2, 3] None)
     = Inl (Error ''Failed to convert video to WebP: Command failed'')
   \<and> fst (snd (convertVideoToWebP
          \<lparr>TEMP_DIR = ''/tmp'', now_in = 1, rand_in = ''a'', now_out = 2, rand_out = ''b'',
           write_fault = None,
           execAsync = (\<lambda>cmd f. (Inl (Error ''Command failed''), f(''/tmp/output-2-b.webp'' := Some [0]))),
           read_fault = None, unlink_fault = (\<lambda>p. None)\<rparr>
          (\<lambda>p. None) [1, 2, 3] None)) ''/tmp/input-1-a.mp4'' = None
   \<and> fst (snd (convertVideoToWebP
          \<lparr>TEMP_DIR = ''/tmp'', now_in = 1, rand_in = ''a'', now_out = 2, rand_out = ''b'',
           write_fault = None,
           execAsync = (\<lambda>cmd f. (Inl (Error ''Command failed''), f(''/tmp/output-2-b.webp'' := Some [0]))),
           read_fault = None, unlink_fault = (\<lambda>p. None)\<rparr>
          (\<lambda>p. None) [1, 2, 3] None)) ''/tmp/output-2-b.webp'' = None
   \<and> fst (convertVideoToWebP2
          \<lparr>TEMP_DIR = ''/tmp'', now_in = 1, rand_in = ''a'', now_out = 2, rand_out = ''b'',
           write_fault = None,
           execAsync = (\<lambda>cmd f. (Inr ([], ''frame=  10''), f(''/tmp/output-2-b.webp'' := Some [7, 8]))),
           read_fault = None, unlink_fault = (\<lambda>p. None)\<rparr>
          (\<lambda>p. None) [1, 2, 3] None)
     = Inr [7, 8]
   \<and> fst (snd (convertVideoToWebP2
          \<lparr>TEMP_DIR = ''/tmp'', now_in = 1, rand_in = ''a'', now_out = 2, rand_out = ''b'',
           write_fault = None,
           execAsync = (\<lambda>cmd f. (Inr ([], ''frame=  10''), f(''/tmp/output-2-b.webp'' := Some [7, 8]))),
           read_fault = None, unlink_fault = (\<lambda>p. None)\<rparr>
          (\<lambda>p. None) [1, 2, 3] None)) ''/tmp/input-1-a.mp4'' = None
   \<and> fst (snd (convertVideoToWebP2
          \<lparr>TEMP_DIR = ''/tmp'', now_in = 1, rand_in = ''a'', now_out = 2, rand_out = ''b'',
           write_fault = None,
           execAsync = (\<lambda>cmd f. (Inr ([], ''frame=  10''), f(''/tmp/output-2-b.webp'' := Some [7, 8]))),
           read_fault = None, unlink_fault = (\<lambda>p. None)\<rparr>
          (\<lambda>p. None) [1, 2, 3] None)) ''/tmp/output-2-b.webp'' = None"
proof -
  let ?e1 = "\<lparr>TEMP_DIR = ''/tmp'', now_in = 1, rand_in = ''a'', now_out = 2, rand_out = ''b'',
           write_fault = None,
           execAsync = (\<lambda>cmd f. (Inl (Error ''Command failed''), f(''/tmp/output-2-b.webp'' := Some [0::8 word]))),
           read_fault = None, unlink_fault = (\<lambda>p. None)\<rparr>"
  let ?e2 = "\<lparr>TEMP_DIR = ''/tmp'', now_in = 1, rand_in = ''a'', now_out = 2, rand_out = ''b'',
           write_fault = None,
           execAsync = (\<lambda>cmd f. (Inr ([], ''frame=  10''), f(''/tmp/output-2-b.webp'' := Some [7, 8::8 word]))),
           read_fault = None, unlink_fault = (\<lambda>p. None)\<rparr>"
  have r1: "fst (convertVideoToWebP ?e1 (\<lambda>p. None) [1, 2, 3] None)
     = Inl (Error ''Failed to convert video to WebP: Command failed'')"
    by (simp add: convertVideoToWebP_def convert_with_result try_block_def writeFile_def)
  have r2: "fst (convertVideoToWebP2 ?e2 (\<lambda>p. None) [1, 2, 3] None) = Inr [7, 8]"
    by (simp add: convertVideoToWebP2_def convert_with_result try_block_def writeFile_def
          readFile_def paths0)
  from transcode_cleanup[of ?e1 "\<lambda>p. None" "[1, 2, 3]" None]
  have c1: "fst (snd (convertVideoToWebP ?e1 (\<lambda>p. None) [1, 2, 3] None)) (inputPath ?e1) = None"
       "fst (snd (convertVideoToWebP ?e1 (\<lambda>p. None) [1, 2, 3] None)) (outputPath ?e1) = None"
    by simp_all
  from transcode_cleanup[of ?e2 "\<lambda>p. None" "[1, 2, 3]" None]
  have c2: "fst (snd (convertVideoToWebP2 ?e2 (\<lambda>p. None) [1, 2, 3] None)) (inputPath ?e2) = None"
       "fst (snd (convertVideoToWebP2 ?e2 (\<lambda>p. None) [1, 2, 3] None)) (outputPath ?e2) = None"
    by simp_all
  show ?thesis using r1 r2 c1 c2 by (simp add: paths0)
qed

lemma try_block_ops:
  "snd (snd (try_block cmd env files buf)) = [OpWrite (inputPath env)]
   \<or> snd (snd (try_block cmd env files buf)) = [OpWrite (inputPath env), OpExec cmd]
   \<or> snd (snd (try_block cmd env files buf))
        = [OpWrite (inputPath env), OpExec cmd, OpRead (outputPath env)]"
  by (simp add: try_block_def split: prod.splits sum.splits)

lemma try_block_ops_written:
  "write_fault env = None \<Longrightarrow> OpExec cmd \<in> set (snd (snd (try_block cmd env files buf)))"
  by (simp add: try_block_def writeFile_def split: prod.splits sum.splits)

lemma convert_with_trace:
  "snd (snd (convert_with command env files buf options))
     = snd (snd (try_block
                  (command (inputPath env)
                     (case options of None \<Rightarrow> 30 | Some opts \<Rightarrow> (case fps opts of None \<Rightarrow> 30 | Some v \<Rightarrow> v))
                     (case options of None \<Rightarrow> 85 | Some opts \<Rightarrow> (case quality opts of None \<Rightarrow> 85 | Some v \<Rightarrow> v))
                     (outputPath env))
                  env files buf))
       @ [OpUnlink (inputPath env), OpUnlink (outputPath env)]"
  by (simp add: convert_with_def Let_def split: prod.splits sum.splits)

lemma convert_with_exec:
  assumes "OpExec c \<in> set (snd (snd (convert_with command env files buf options)))"
  shows "c = command (inputPath env)
               (case options of None \<Rightarrow> 30 | Some opts \<Rightarrow> (case fps opts of None \<Rightarrow> 30 | Some v \<Rightarrow> v))
               (case options of None \<Rightarrow> 85 | Some opts \<Rightarrow> (case quality opts of None \<Rightarrow> 85 | Some v \<Rightarrow> v))
               (outputPath env)"
proof -
  let ?cmd = "command (inputPath env)
               (case options of None \<Rightarrow> 30 | Some opts \<Rightarrow> (case fps opts of None \<Rightarrow> 30 | Some v \<Rightarrow> v))
               (case options of None \<Rightarrow> 85 | Some opts \<Rightarrow> (case quality opts of None \<Rightarrow> 85 | Some v \<Rightarrow> v))
               (outputPath env)"
  from assms have "OpExec c \<in> set (snd (snd (try_block ?cmd env files buf)))"
    by (simp add: convert_with_trace)
  with try_block_ops[of ?cmd env files buf] show ?thesis by auto
qed

lemma convert_with_exec_made:
  "write_fault env = None \<Longrightarrow>
   \<exists>c. OpExec c \<in> set (snd (snd (convert_with command env files buf options)))"
  by (simp add: convert_with_trace) (blast intro: try_block_ops_written)

text \<open>
  C2, as the code has it. The first variant (\<open>-q:v\<close>) puts on the command line the quality
  \<open>max 60 (min 70 q)\<close>, where \<open>q\<close> is the quality of the options or 85 when it is left out:
  it lies between 60 and 70, is 60 for every \<open>q\<close> up to 60 and 70 for every \<open>q\<close> from 70
  (so 70 for the default), and every subprocess the call starts has that command line. The
  second variant (\<open>-quality\<close>) puts \<open>q\<close> itself on the command line.
\<close>

theorem quality_on_command_line:
  "60 \<le> adjustedQuality q \<and> adjustedQuality q \<le> 70
   \<and> (q \<le> 60 \<longrightarrow> adjustedQuality q = 60)
   \<and> (70 \<le> q \<longrightarrow> adjustedQuality q = 70)
   \<and> (60 \<le> q \<and> q \<le> 70 \<longrightarrow> adjustedQuality q = q)
   \<and> (q = (case options of None \<Rightarrow> 85 | Some opts \<Rightarrow> (case quality opts of None \<Rightarrow> 85 | Some v \<Rightarrow> v))
        \<and> f = (case options of None \<Rightarrow> 30 | Some opts \<Rightarrow> (case fps opts of None \<Rightarrow> 30 | Some v \<Rightarrow> v))
      \<longrightarrow> (\<forall>c. OpExec c \<in> set (snd (snd (convertVideoToWebP env files buf options)))
               \<longrightarrow> c = ''ffmpeg -i '' @ dq @ inputPath env @ dq @ '' -vf '' @ dq @ ''fps=''
                         @ string_of_int f @ dq @ '' -c:v libwebp -q:v ''
                         @ string_of_int (max 60 (min 70 q))
                         @ '' -compression_level 6 -lossless 0 -loop 0 -an -vsync 0 -pix_fmt yuv420p -y ''
                         @ dq @ outputPath env @ dq)
        \<and> (write_fault env = None
             \<longrightarrow> (\<exists>c. OpExec c \<in> set (snd (snd (convertVideoToWebP env files buf options)))))
        \<and> (\<forall>c. OpExec c \<in> set (snd (snd (convertVideoToWebP2 env files buf options)))
               \<longrightarrow> c = ''ffmpeg -i '' @ dq @ inputPath env @ dq @ '' -vf '' @ dq @ ''fps=''
                         @ string_of_int f @ dq @ '' -c:v libwebp -quality ''
                         @ string_of_int q
                         @ '' -compression_level 6 -method 6 -loop 0 -an -vsync 0 -pix_fmt yuv420p -y ''
                         @ dq @ outputPath env @ dq))"
proof (intro conjI impI allI)
  show "60 \<le> adjustedQuality q" "adjustedQuality q \<le> 70"
    by (simp_all add: adjustedQuality_def)
  show "q \<le> 60 \<Longrightarrow> adjustedQuality q = 60" by (simp add: adjustedQuality_def)
  show "70 \<le> q \<Longrightarrow> adjustedQuality q = 70" by (simp add: adjustedQuality_def)
  show "60 \<le> q \<and> q \<le> 70 \<Longrightarrow> adjustedQuality q = q" by (simp add: adjustedQuality_def)
next
  fix c
  assume h: "q = (case options of None \<Rightarrow> 85 | Some opts \<Rightarrow> (case quality opts of None \<Rightarrow> 85 | Some v \<Rightarrow> v))
        \<and> f = (case options of None \<Rightarrow> 30 | Some opts \<Rightarrow> (case fps opts of None \<Rightarrow> 30 | Some v \<Rightarrow> v))"
    and c: "OpExec c \<in> set (snd (snd (convertVideoToWebP env files buf options)))"
  from c have "c = ffmpegCommand (inputPath env) f q (outputPath env)"
    unfolding convertVideoToWebP_def using h convert_with_exec by blast
  then show "c = ''ffmpeg -i '' @ dq @ inputPath env @ dq @ '' -vf '' @ dq @ ''fps=''
                         @ string_of_int f @ dq @ '' -c:v libwebp -q:v ''
                         @ string_of_int (max 60 (min 70 q))
                         @ '' -compression_level 6 -lossless 0 -loop 0 -an -vsync 0 -pix_fmt yuv420p -y ''
                         @ dq @ outputPath env @ dq"
    by (simp add: ffmpegCommand_def adjustedQuality_def)
next
  assume "write_fault env = None"
  then show "\<exists>c. OpExec c \<in> set (snd (snd (convertVideoToWebP env files buf options)))"
    unfolding convertVideoToWebP_def by (rule convert_with_exec_made)
next
  fix c
  assume h: "q = (case options of None \<Rightarrow> 85 | Some opts \<Rightarrow> (case quality opts of None \<Rightarrow> 85 | Some v \<Rightarrow> v))
        \<and> f = (case options of None \<Rightarrow> 30 | Some opts \<Rightarrow> (case fps opts of None \<Rightarrow> 30 | Some v \<Rightarrow> v))"
    and c: "OpExec c \<in> set (snd (snd (convertVideoToWebP2 env files buf options)))"
  from c have "c = ffmpegCommand2 (inputPath env) f q (outputPath env)"
    unfolding convertVideoToWebP2_def using h convert_with_exec by blast
  then show "c = ''ffmpeg -i '' @ dq @ inputPath env @ dq @ '' -vf '' @ dq @ ''fps=''
                         @ string_of_int f @ dq @ '' -c:v libwebp -quality ''
                         @ string_of_int q
                         @ '' -compression_level 6 -method 6 -loop 0 -an -vsync 0 -pix_fmt yuv420p -y ''
                         @ dq @ outputPath env @ dq"
    by (simp add: ffmpegCommand2_def)
qed

theorem quality_on_command_line_witness:
  "OpExec (''ffmpeg -i '' @ dq @ ''/tmp/input-1-a.mp4'' @ dq @ '' -vf '' @ dq @ ''fps=30'' @ dq
            @ '' -c:v libwebp -q:v 60 -compression_level 6 -lossless 0 -loop 0 -an -vsync 0 -pix_fmt yuv420p -y ''
            @ dq @ ''/tmp/output-2-b.webp'' @ dq)
     \<in> set (snd (snd (convertVideoToWebP
          \<lparr>TEMP_DIR = ''/tmp'', now_in = 1, rand_in = ''a'', now_out = 2, rand_out = ''b'',
           write_fault = None,
           execAsync = (\<lambda>cmd f. (Inr ([], []), f(''/tmp/output-2-b.webp'' := Some [7, 8]))),
           read_fault = None, unlink_fault = (\<lambda>p. None)\<rparr>
          (\<lambda>p. None) [1, 2, 3] (Some \<lparr>quality = Some 10, fps = None\<rparr>))))
   \<and> OpExec (''ffmpeg -i '' @ dq @ ''/tmp/input-1-a.mp4'' @ dq @ '' -vf '' @ dq @ ''fps=30'' @ dq
            @ '' -c:v libwebp -q:v 70 -compression_level 6 -lossless 0 -loop 0 -an -vsync 0 -pix_fmt yuv420p -y ''
            @ dq @ ''/tmp/output-2-b.webp'' @ dq)
     \<in> set (snd (snd (convertVideoToWebP
          \<lparr>TEMP_DIR = ''/tmp'', now_in = 1, rand_in = ''a'', now_out = 2, rand_out = ''b'',
           write_fault = None,
           execAsync = (\<lambda>cmd f. (Inr ([], []), f(''/tmp/output-2-b.webp'' := Some [7, 8]))),
           read_fault = None, unlink_fault = (\<lambda>p. None)\<rparr>
          (\<lambda>p. None) [1, 2, 3] (Some \<lparr>quality = Some 99, fps = None\<rparr>))))
   \<and> adjustedQuality 10 = 60 \<and> adjustedQuality 99 = 70 \<and> adjustedQuality 85 = 70
   \<and> adjustedQuality 65 = 65"
proof -
  let ?e = "\<lparr>TEMP_DIR = ''/tmp'', now_in = 1, rand_in = ''a'', now_out = 2, rand_out = ''b'',
           write_fault = None,
           execAsync = (\<lambda>cmd f. (Inr ([], []), f(''/tmp/output-2-b.webp'' := Some [7, 8::8 word]))),
           read_fault = None, unlink_fault = (\<lambda>p. None)\<rparr>"
  let ?o10 = "Some \<lparr>quality = Some 10, fps = None\<rparr>"
  let ?o99 = "Some \<lparr>quality = Some 99, fps = None\<rparr>"
  have s: "string_of_int 30 = ''30''" "string_of_int 60 = ''60''" "string_of_int 70 = ''70''"
    by (simp_all add: string_of_int_def digit_char_def)
  note t10 = quality_on_command_line[of 10 ?o10 30 ?e "\<lambda>p. None" "[1, 2, 3]"]
  note t99 = quality_on_command_line[of 99 ?o99 30 ?e "\<lambda>p. None" "[1, 2, 3]"]
  note t85 = quality_on_command_line[of 85 None 30 ?e "\<lambda>p. None" "[1, 2, 3]"]
  note t65 = quality_on_command_line[of 65 None 30 ?e "\<lambda>p. None" "[1, 2, 3]"]
  have a: "adjustedQuality 10 = 60" using t10 by simp
  have b: "adjustedQuality 99 = 70" using t99 by simp
  have c: "adjustedQuality 85 = 70" using t85 by simp
  have d: "adjustedQuality 65 = 65" using t65 by simp
  obtain c10 where c10: "OpExec c10 \<in> set (snd (snd (convertVideoToWebP ?e (\<lambda>p. None) [1, 2, 3] ?o10)))"
    using t10 by auto
  then have e10: "c10 = ''ffmpeg -i '' @ dq @ ''/tmp/input-1-a.mp4'' @ dq @ '' -vf '' @ dq @ ''fps=30'' @ dq
            @ '' -c:v libwebp -q:v 60 -compression_level 6 -lossless 0 -loop 0 -an -vsync 0 -pix_fmt yuv420p -y ''
            @ dq @ ''/tmp/output-2-b.webp'' @ dq"
    using t10 by (simp add: paths0 s)
  obtain c99 where c99: "OpExec c99 \<in> set (snd (snd (convertVideoToWebP ?e (\<lambda>p. None) [1, 2, 3] ?o99)))"
    using t99 by auto
  then have e99: "c99 = ''ffmpeg -i '' @ dq @ ''/tmp/input-1-a.mp4'' @ dq @ '' -vf '' @ dq @ ''fps=30'' @ dq
            @ '' -c:v libwebp -q:v 70 -compression_level 6 -lossless 0 -loop 0 -an -vsync 0 -pix_fmt yuv420p -y ''
            @ dq @ ''/tmp/output-2-b.webp'' @ dq"
    using t99 by (simp add: paths0 s)
  show ?thesis using a b c d c10 c99 unfolding e10 e99 by blast
qed

text \<open>
  C2 as stated fails on the second variant: asked for quality 10 it runs the subprocess
  with \<open>-quality 10\<close>, and with no quality given with \<open>-quality 85\<close>; neither lies in the
  band from 60 to 70.
\<close>

theorem quality_on_command_line_counterexample:
  "snd (snd (convertVideoToWebP2
          \<lparr>TEMP_DIR = ''/tmp'', now_in = 1, rand_in = ''a'', now_out = 2, rand_out = ''b'',
           write_fault = None,
           execAsync = (\<lambda>cmd f. (Inr ([], []), f(''/tmp/output-2-b.webp'' := Some [7, 8]))),
           read_fault = None, unlink_fault = (\<lambda>p. None)\<rparr>
          (\<lambda>p. None) [1, 2, 3] (Some \<lparr>quality = Some 10, fps = None\<rparr>))) ! 1
     = OpExec (''ffmpeg -i '' @ dq @ ''/tmp/input-1-a.mp4'' @ dq @ '' -vf '' @ dq @ ''fps=30'' @ dq
            @ '' -c:v libwebp -quality 10 -compression_level 6 -method 6 -loop 0 -an -vsync 0 -pix_fmt yuv420p -y ''
            @ dq @ ''/tmp/output-2-b.webp'' @ dq)
   \<and> snd (snd (convertVideoToWebP2
          \<lparr>TEMP_DIR = ''/tmp'', now_in = 1, rand_in = ''a'', now_out = 2, rand_out = ''b'',
           write_fault = None,
           execAsync = (\<lambda>cmd f. (Inr ([], []), f(''/tmp/output-2-b.webp'' := Some [7, 8]))),
           read_fault = None, unlink_fault = (\<lambda>p. None)\<rparr>
          (\<lambda>p. None) [1, 2, 3] None)) ! 1
     = OpExec (''ffmpeg -i '' @ dq @ ''/tmp/input-1-a.mp4'' @ dq @ '' -vf '' @ dq @ ''fps=30'' @ dq
            @ '' -c:v libwebp -quality 85 -compression_level 6 -method 6 -loop 0 -an -vsync 0 -pix_fmt yuv420p -y ''
            @ dq @ ''/tmp/output-2-b.webp'' @ dq)
   \<and> \<not> (60 \<le> (10::int) \<and> (10::int) \<le> 70) \<and> \<not> (60 \<le> (85::int) \<and> (85::int) \<le> 70)"
proof -
  have s: "string_of_int 30 = ''30''" "string_of_int 10 = ''10''" "string_of_int 85 = ''85''"
    by (simp_all add: string_of_int_def digit_char_def)
  show ?thesis
    by (simp add: convertVideoToWebP2_def convert_with_trace try_block_def writeFile_def
          ffmpegCommand2_def paths0 s)
qed

section \<open>Properties of the shared rendering-engine handle\<close>

lemma settle_browserPromise [simp]: "browserPromise (settle p outcome h) = browserPromise h"
  by (simp add: settle_def)

lemma settle_length [simp]: "length (promises (settle p outcome h)) = length (promises h)"
  by (simp add: settle_def)

lemma settle_settled:
  "observe h p \<noteq> Pending \<Longrightarrow> observe (settle q outcome h) p = observe h p"
  by (auto simp add: settle_def observe_def nth_list_update)

lemma get_cached:
  "browserPromise h = Some p \<Longrightarrow> getSharedRemotionBrowser options h = (p, h)"
  by (simp add: getSharedRemotionBrowser_def)

lemma get_fresh:
  "browserPromise h = None \<Longrightarrow>
   fst (getSharedRemotionBrowser options h) = length (promises h)
   \<and> browserPromise (snd (getSharedRemotionBrowser options h)) = Some (length (promises h))
   \<and> length (promises (snd (getSharedRemotionBrowser options h))) = Suc (length (promises h))"
  by (simp add: getSharedRemotionBrowser_def openBrowser_def)

lemma run_handle_Acquire:
  "run_handle (Acquire options # evs) h =
     (fst (getSharedRemotionBrowser options h)
        # fst (run_handle evs (snd (getSharedRemotionBrowser options h))),
      snd (run_handle evs (snd (getSharedRemotionBrowser options h))))"
  by (simp add: split_beta)

lemma run_cached:
  "browserPromise h = Some p \<Longrightarrow>
   set (fst (run_handle evs h)) \<subseteq> {p}
   \<and> length (promises (snd (run_handle evs h))) = length (promises h)
   \<and> browserPromise (snd (run_handle evs h)) = Some p"
proof (induction evs arbitrary: h)
  case Nil
  then show ?case by simp
next
  case (Cons ev evs)
  show ?case
  proof (cases ev)
    case (Acquire options)
    with Cons.IH[OF Cons.prems] Cons.prems show ?thesis
      by (simp add: run_handle_Acquire get_cached del: run_handle.simps)
  next
    case (Settle q outcome)
    with Cons.IH[of "settle q outcome h"] Cons.prems show ?thesis by simp
  qed
qed

lemma run_uninitialised:
  "browserPromise h = None \<Longrightarrow>
   set (fst (run_handle evs h)) \<subseteq> {length (promises h)}
   \<and> length (promises (snd (run_handle evs h))) \<le> Suc (length (promises h))"
proof (induction evs arbitrary: h)
  case Nil
  then show ?case by simp
next
  case (Cons ev evs)
  show ?case
  proof (cases ev)
    case (Acquire options)
    obtain p h' where g: "getSharedRemotionBrowser options h = (p, h')"
      by (cases "getSharedRemotionBrowser options h")
    with get_fresh[OF Cons.prems, of options]
    have f: "p = length (promises h)" "browserPromise h' = Some p"
      "length (promises h') = Suc (length (promises h))" by simp_all
    from run_cached[OF f(2), of evs] f Acquire g show ?thesis
      by (simp add: run_handle_Acquire del: run_handle.simps)
  next
    case (Settle q outcome)
    with Cons.IH[of "settle q outcome h"] Cons.prems show ?thesis by simp
  qed
qed

lemma run_failed:
  "browserPromise h = Some p \<Longrightarrow> observe h p = RejectedWith e \<Longrightarrow>
   observe (snd (run_handle evs h)) p = RejectedWith e"
proof (induction evs arbitrary: h)
  case Nil
  then show ?case by simp
next
  case (Cons ev evs)
  show ?case
  proof (cases ev)
    case (Acquire options)
    with Cons.IH[OF Cons.prems] Cons.prems show ?thesis
      by (simp add: run_handle_Acquire get_cached del: run_handle.simps)
  next
    case (Settle q outcome)
    have "observe (settle q outcome h) p = RejectedWith e"
      using Cons.prems by (simp add: settle_settled)
    with Cons.IH[of "settle q outcome h"] Cons.prems Settle show ?thesis by simp
  qed
qed

lemma settle_observe:
  "p < length (promises h) \<Longrightarrow>
   observe (settle q outcome h) p = (if q = p \<and> observe h p = Pending then outcome else observe h p)"
  by (auto simp add: settle_def observe_def nth_list_update)

lemma settle_launch:
  "fst (promises (settle q outcome h) ! p) = fst (promises h ! p)"
  by (cases "p = q") (auto simp add: settle_def nth_list_update)

lemma run_observe:
  "browserPromise h = Some p \<Longrightarrow> p < length (promises h) \<Longrightarrow>
   observe (snd (run_handle evs h)) p = outcome_of p (observe h p) evs
   \<and> fst (promises (snd (run_handle evs h)) ! p) = fst (promises h ! p)
   \<and> fst (run_handle evs h) = replicate (length (filter is_acquire evs)) p"
proof (induction evs arbitrary: h)
  case Nil
  then show ?case by simp
next
  case (Cons ev evs)
  show ?case
  proof (cases ev)
    case (Acquire options)
    with Cons.IH[OF Cons.prems] Cons.prems show ?thesis
      by (simp add: run_handle_Acquire get_cached del: run_handle.simps)
  next
    case (Settle q outcome)
    have "browserPromise (settle q outcome h) = Some p" "p < length (promises (settle q outcome h))"
      using Cons.prems by simp_all
    from Cons.IH[OF this] Cons.prems Settle show ?thesis
      by (simp add: settle_observe settle_launch)
  qed
qed

lemma outcome_of_append:
  "outcome_of p s (xs @ ys) = outcome_of p (outcome_of p s xs) ys"
proof (induction xs arbitrary: s)
  case Nil
  then show ?case by simp
next
  case (Cons ev xs)
  then show ?case by (cases ev) simp_all
qed

lemma outcome_of_settled: "s \<noteq> Pending \<Longrightarrow> outcome_of p s evs = s"
proof (induction evs)
  case Nil
  then show ?case by simp
next
  case (Cons ev evs)
  then show ?case by (cases ev) simp_all
qed

lemma outcome_of_pending:
  "(\<forall>outcome. Settle p outcome \<in> set evs \<longrightarrow> outcome = Pending) \<Longrightarrow>
   outcome_of p Pending evs = Pending"
proof (induction evs)
  case Nil
  then show ?case by simp
next
  case (Cons ev evs)
  then show ?case by (cases ev) auto
qed

lemma outcome_of_first:
  "(\<forall>outcome. Settle p outcome \<in> set pre \<longrightarrow> outcome = Pending) \<Longrightarrow> out \<noteq> Pending \<Longrightarrow>
   outcome_of p Pending (pre @ Settle p out # post) = out"
  by (simp add: outcome_of_append outcome_of_pending outcome_of_settled)

lemma first_acquire:
  "getSharedRemotionBrowser options initial_handle =
     (0, \<lparr>browserPromise = Some 0,
          promises = [(\<lparr>chromiumOptions = chromiumOptions options,
                        browserExecutable = browserExecutable options\<rparr>, Pending)],
          closed = []\<rparr>)"
  by (simp add: getSharedRemotionBrowser_def openBrowser_def initial_handle_def)

lemma run_first_acquire:
  "fst (run_handle (Acquire options # evs) initial_handle)
     = replicate (Suc (length (filter is_acquire evs))) 0
   \<and> length (promises (snd (run_handle (Acquire options # evs) initial_handle))) = 1
   \<and> fst (promises (snd (run_handle (Acquire options # evs) initial_handle)) ! 0)
       = \<lparr>chromiumOptions = chromiumOptions options, browserExecutable = browserExecutable options\<rparr>
   \<and> browserPromise (snd (run_handle (Acquire options # evs) initial_handle)) = Some 0
   \<and> observe (snd (run_handle (Acquire options # evs) initial_handle)) 0 = outcome_of 0 Pending evs"
proof -
  let ?h = "\<lparr>browserPromise = Some 0,
          promises = [(\<lparr>chromiumOptions = chromiumOptions options,
                        browserExecutable = browserExecutable options\<rparr>, Pending)],
          closed = []\<rparr>"
  have b: "browserPromise ?h = Some 0" and l: "0 < length (promises ?h)" by simp_all
  have o: "observe ?h 0 = Pending" by (simp add: observe_def)
  from run_observe[OF b l, of evs] run_cached[OF b, of evs] o
  show ?thesis
    by (simp add: run_handle_Acquire first_acquire del: run_handle.simps)
qed

lemma run_settle_first:
  "run_handle (Settle p outcome # evs) initial_handle = run_handle evs initial_handle"
  by (simp add: settle_def initial_handle_def)

text \<open>
  C3. Take any run of calls of \<open>getSharedRemotionBrowser\<close> and of settlements of the
  engine's promises that starts with the module freshly loaded. Settlements before the first
  call find nothing to settle. From the first call on, \<open>openBrowser\<close> has been called exactly
  once, with the options of that first call; every call, the first and all later ones,
  returns that one promise, which exists and is the cached one; while the engine has not
  settled it, every caller observes it pending; and once the engine has settled it, with a
  browser or with an error, every caller observes exactly that outcome. So \<open>openBrowser\<close> is
  called at most once in the whole run, and from any state of the module a run calls it at
  most once more and hands every caller the same promise.
\<close>

theorem shared_init_once:
  "length (promises (snd (run_handle evs initial_handle))) \<le> 1
   \<and> (\<forall>p \<in> set (fst (run_handle evs initial_handle)). p = 0)
   \<and> (\<forall>p \<in> set (fst (run_handle evs initial_handle)).
        \<forall>q \<in> set (fst (run_handle evs initial_handle)).
          observe (snd (run_handle evs initial_handle)) p
            = observe (snd (run_handle evs initial_handle)) q)
   \<and> length (promises (snd (run_handle evs h))) \<le> Suc (length (promises h))
   \<and> (\<forall>p \<in> set (fst (run_handle evs h)). \<forall>q \<in> set (fst (run_handle evs h)). p = q)
   \<and> run_handle (Settle s outcome # evs) initial_handle = run_handle evs initial_handle
   \<and> fst (run_handle (Acquire options # evs) initial_handle)
       = replicate (Suc (length (filter is_acquire evs))) 0
   \<and> length (promises (snd (run_handle (Acquire options # evs) initial_handle))) = 1
   \<and> fst (promises (snd (run_handle (Acquire options # evs) initial_handle)) ! 0)
       = \<lparr>chromiumOptions = chromiumOptions options, browserExecutable = browserExecutable options\<rparr>
   \<and> browserPromise (snd (run_handle (Acquire options # evs) initial_handle)) = Some 0
   \<and> (\<forall>p \<in> set (fst (run_handle (Acquire options # evs) initial_handle)).
        p < length (promises (snd (run_handle (Acquire options # evs) initial_handle))))
   \<and> ((\<forall>out. Settle 0 out \<in> set evs \<longrightarrow> out = Pending)
        \<longrightarrow> (\<forall>p \<in> set (fst (run_handle (Acquire options # evs) initial_handle)).
              observe (snd (run_handle (Acquire options # evs) initial_handle)) p = Pending))
   \<and> ((\<forall>out. Settle 0 out \<in> set pre \<longrightarrow> out = Pending) \<and> result \<noteq> Pending
        \<longrightarrow> (\<forall>p \<in> set (fst (run_handle (Acquire options # pre @ Settle 0 result # post) initial_handle)).
              observe (snd (run_handle (Acquire options # pre @ Settle 0 result # post) initial_handle)) p
                = result))"
proof -
  have i: "browserPromise initial_handle = None" "length (promises initial_handle) = 0"
    by (simp_all add: initial_handle_def)
  from run_uninitialised[OF i(1), of evs] i(2)
  have a: "length (promises (snd (run_handle evs initial_handle))) \<le> 1"
    and b: "\<forall>p \<in> set (fst (run_handle evs initial_handle)). p = 0"
    by auto
  have c: "length (promises (snd (run_handle evs h))) \<le> Suc (length (promises h))
     \<and> (\<forall>p \<in> set (fst (run_handle evs h)). \<forall>q \<in> set (fst (run_handle evs h)). p = q)"
  proof (cases "browserPromise h")
    case None
    from run_uninitialised[OF this, of evs] show ?thesis by auto
  next
    case (Some p)
    from run_cached[OF this, of evs] show ?thesis by auto
  qed
  have d: "\<forall>p \<in> set (fst (run_handle evs initial_handle)).
        \<forall>q \<in> set (fst (run_handle evs initial_handle)).
          observe (snd (run_handle evs initial_handle)) p
            = observe (snd (run_handle evs initial_handle)) q"
  proof (intro ballI)
    fix p q
    assume "p \<in> set (fst (run_handle evs initial_handle))"
      and "q \<in> set (fst (run_handle evs initial_handle))"
    with b have "p = 0" "q = 0" by blast+
    then show "observe (snd (run_handle evs initial_handle)) p
            = observe (snd (run_handle evs initial_handle)) q" by simp
  qed
  have e: "run_handle (Settle s outcome # evs) initial_handle = run_handle evs initial_handle"
    by (rule run_settle_first)
  note f = run_first_acquire[of options evs]
  have g: "\<forall>p \<in> set (fst (run_handle (Acquire options # evs) initial_handle)).
        p < length (promises (snd (run_handle (Acquire options # evs) initial_handle)))"
    using f by simp
  have k: "\<forall>p \<in> set (fst (run_handle (Acquire options # evs) initial_handle)).
              observe (snd (run_handle (Acquire options # evs) initial_handle)) p = Pending"
    if "\<forall>out. Settle 0 out \<in> set evs \<longrightarrow> out = Pending"
    using f outcome_of_pending[OF that] by simp
  have l: "\<forall>p \<in> set (fst (run_handle (Acquire options # pre @ Settle 0 result # post) initial_handle)).
              observe (snd (run_handle (Acquire options # pre @ Settle 0 result # post) initial_handle)) p
                = result"
    if "(\<forall>out. Settle 0 out \<in> set pre \<longrightarrow> out = Pending) \<and> result \<noteq> Pending"
  proof -
    from that have "outcome_of 0 Pending (pre @ Settle 0 result # post) = result"
      by (intro outcome_of_first) simp_all
    with run_first_acquire[of options "pre @ Settle 0 result # post"] show ?thesis by simp
  qed
  from a b c d e f g k l show ?thesis by blast
qed

theorem shared_init_once_witness:
  "fst (run_handle [Acquire \<lparr>chromiumOptions = None, browserExecutable = None\<rparr>,
                    Acquire \<lparr>chromiumOptions = None, browserExecutable = Some ''/usr/bin/chromium''\<rparr>,
                    Settle 0 (Fulfilled 7),
                    Acquire \<lparr>chromiumOptions = None, browserExecutable = None\<rparr>] initial_handle)
     = [0, 0, 0]
   \<and> length (promises (snd (run_handle
                   [Acquire \<lparr>chromiumOptions = None, browserExecutable = None\<rparr>,
                    Acquire \<lparr>chromiumOptions = None, browserExecutable = Some ''/usr/bin/chromium''\<rparr>,
                    Settle 0 (Fulfilled 7),
                    Acquire \<lparr>chromiumOptions = None, browserExecutable = None\<rparr>] initial_handle))) = 1
   \<and> observe (snd (run_handle
                   [Acquire \<lparr>chromiumOptions = None, browserExecutable = None\<rparr>,
                    Acquire \<lparr>chromiumOptions = None, browserExecutable = Some ''/usr/bin/chromium''\<rparr>,
                    Settle 0 (Fulfilled 7),
                    Acquire \<lparr>chromiumOptions = None, browserExecutable = None\<rparr>] initial_handle)) 0
       = Fulfilled 7
   \<and> observe (snd (run_handle
                   [Acquire \<lparr>chromiumOptions = None, browserExecutable = None\<rparr>,
                    Acquire \<lparr>chromiumOptions = None, browserExecutable = None\<rparr>,
                    Settle 0 (RejectedWith (Error ''launch failed''))] initial_handle)) 0
       = RejectedWith (Error ''launch failed'')
   \<and> observe (snd (run_handle
                   [Acquire \<lparr>chromiumOptions = None, browserExecutable = None\<rparr>,
                    Acquire \<lparr>chromiumOptions = None, browserExecutable = None\<rparr>] initial_handle)) 0
       = Pending"
proof -
  let ?o = "\<lparr>chromiumOptions = None, browserExecutable = None\<rparr>"
  let ?c = "\<lparr>chromiumOptions = None, browserExecutable = Some ''/usr/bin/chromium''\<rparr>"
  note t1 = shared_init_once[of "[Acquire ?c, Settle 0 (Fulfilled 7), Acquire ?o]" initial_handle
      0 Pending ?o "[Acquire ?c]" "Fulfilled 7" "[Acquire ?o]"]
  note t2 = shared_init_once[of "[Acquire ?o, Settle 0 (RejectedWith (Error ''launch failed''))]"
      initial_handle 0 Pending ?o "[Acquire ?o]" "RejectedWith (Error ''launch failed'')" "[]"]
  note t3 = shared_init_once[of "[Acquire ?o]" initial_handle 0 Pending ?o "[]" "Fulfilled 0" "[]"]
  have r1: "fst (run_handle [Acquire ?o, Acquire ?c, Settle 0 (Fulfilled 7), Acquire ?o] initial_handle)
      = [0, 0, 0]"
    and n1: "length (promises (snd (run_handle
               [Acquire ?o, Acquire ?c, Settle 0 (Fulfilled 7), Acquire ?o] initial_handle))) = 1"
    using t1 by (simp_all add: numeral_3_eq_3)
  have "\<forall>p \<in> set (fst (run_handle [Acquire ?o, Acquire ?c, Settle 0 (Fulfilled 7), Acquire ?o] initial_handle)).
      observe (snd (run_handle [Acquire ?o, Acquire ?c, Settle 0 (Fulfilled 7), Acquire ?o] initial_handle)) p
        = Fulfilled 7"
    using t1 by simp
  with r1 have o1: "observe (snd (run_handle
               [Acquire ?o, Acquire ?c, Settle 0 (Fulfilled 7), Acquire ?o] initial_handle)) 0 = Fulfilled 7"
    by simp
  have r2: "fst (run_handle [Acquire ?o, Acquire ?o, Settle 0 (RejectedWith (Error ''launch failed''))]
       initial_handle) = [0, 0]"
    using t2 by (simp add: numeral_2_eq_2)
  have "\<forall>p \<in> set (fst (run_handle [Acquire ?o, Acquire ?o, Settle 0 (RejectedWith (Error ''launch failed''))]
       initial_handle)).
      observe (snd (run_handle [Acquire ?o, Acquire ?o, Settle 0 (RejectedWith (Error ''launch failed''))]
       initial_handle)) p = RejectedWith (Error ''launch failed'')"
    using t2 by simp
  with r2 have o2: "observe (snd (run_handle
       [Acquire ?o, Acquire ?o, Settle 0 (RejectedWith (Error ''launch failed''))] initial_handle)) 0
        = RejectedWith (Error ''launch failed'')"
    by simp
  have r3: "fst (run_handle [Acquire ?o, Acquire ?o] initial_handle) = [0, 0]"
    using t3 by (simp add: numeral_2_eq_2)
  have "\<forall>p \<in> set (fst (run_handle [Acquire ?o, Acquire ?o] initial_handle)).
      observe (snd (run_handle [Acquire ?o, Acquire ?o] initial_handle)) p = Pending"
    using t3 by simp
  with r3 have o3: "observe (snd (run_handle [Acquire ?o, Acquire ?o] initial_handle)) 0 = Pending"
    by simp
  from r1 n1 o1 o2 o3 show ?thesis by blast
qed

text \<open>
  C4, as the code has it. When the cached initialization has failed, the handle is not
  reset: \<open>browserPromise\<close> still holds the rejected promise, every later call of
  \<open>getSharedRemotionBrowser\<close> returns that same promise, still rejected with the same error,
  and no new engine initialization is started.
\<close>

theorem failed_init_stays_cached:
  "browserPromise h = Some p \<and> observe h p = RejectedWith e
   \<longrightarrow> getSharedRemotionBrowser options h = (p, h)
       \<and> (\<forall>q \<in> set (fst (run_handle evs h)). q = p)
       \<and> length (promises (snd (run_handle evs h))) = length (promises h)
       \<and> browserPromise (snd (run_handle evs h)) = Some p
       \<and> observe (snd (run_handle evs h)) p = RejectedWith e"
proof
  assume h: "browserPromise h = Some p \<and> observe h p = RejectedWith e"
  then have bp: "browserPromise h = Some p" and ob: "observe h p = RejectedWith e" by simp_all
  from run_cached[OF bp, of evs] run_failed[OF bp ob, of evs] get_cached[OF bp, of options]
  show "getSharedRemotionBrowser options h = (p, h)
       \<and> (\<forall>q \<in> set (fst (run_handle evs h)). q = p)
       \<and> length (promises (snd (run_handle evs h))) = length (promises h)
       \<and> browserPromise (snd (run_handle evs h)) = Some p
       \<and> observe (snd (run_handle evs h)) p = RejectedWith e"
    by auto
qed

theorem failed_init_stays_cached_witness:
  "fst (run_handle [Acquire \<lparr>chromiumOptions = None, browserExecutable = None\<rparr>,
                    Acquire \<lparr>chromiumOptions = None, browserExecutable = Some ''/usr/bin/chromium''\<rparr>]
         \<lparr>browserPromise = Some 0,
          promises = [(\<lparr>chromiumOptions = None, browserExecutable = None\<rparr>,
                       RejectedWith (Error ''launch failed''))],
          closed = []\<rparr>) = [0, 0]
   \<and> length (promises (snd (run_handle
         [Acquire \<lparr>chromiumOptions = None, browserExecutable = None\<rparr>,
          Acquire \<lparr>chromiumOptions = None, browserExecutable = Some ''/usr/bin/chromium''\<rparr>]
         \<lparr>browserPromise = Some 0,
          promises = [(\<lparr>chromiumOptions = None, browserExecutable = None\<rparr>,
                       RejectedWith (Error ''launch failed''))],
          closed = []\<rparr>))) = 1
   \<and> observe (snd (run_handle
         [Acquire \<lparr>chromiumOptions = None, browserExecutable = None\<rparr>,
          Acquire \<lparr>chromiumOptions = None, browserExecutable = Some ''/usr/bin/chromium''\<rparr>]
         \<lparr>browserPromise = Some 0,
          promises = [(\<lparr>chromiumOptions = None, browserExecutable = None\<rparr>,
                       RejectedWith (Error ''launch failed''))],
          closed = []\<rparr>)) 0 = RejectedWith (Error ''launch failed'')"
proof -
  let ?h = "\<lparr>browserPromise = Some 0,
          promises = [(\<lparr>chromiumOptions = None, browserExecutable = None\<rparr>,
                       RejectedWith (Error ''launch failed''))],
          closed = []\<rparr>"
  let ?evs = "[Acquire \<lparr>chromiumOptions = None, browserExecutable = None\<rparr>,
          Acquire \<lparr>chromiumOptions = None, browserExecutable = Some ''/usr/bin/chromium''\<rparr>]"
  have pre: "browserPromise ?h = Some 0 \<and> observe ?h 0 = RejectedWith (Error ''launch failed'')"
    by (simp add: observe_def)
  have r: "fst (run_handle ?evs ?h) = [0, 0]"
    by (simp add: getSharedRemotionBrowser_def)
  from failed_init_stays_cached[of ?h 0 "Error ''launch failed''" _ ?evs] pre r
  show ?thesis by simp
qed

text \<open>
  C4 as stated fails: after the first initialization has failed, \<open>browserPromise\<close> is not
  \<open>null\<close>, and the next call gets promise 0 again while \<open>openBrowser\<close> has still been called
  once only.
\<close>

theorem failed_init_counterexample:
  "fst (run_handle [Acquire \<lparr>chromiumOptions = None, browserExecutable = None\<rparr>,
                    Settle 0 (RejectedWith (Error ''launch failed'')),
                    Acquire \<lparr>chromiumOptions = None, browserExecutable = None\<rparr>] initial_handle)
     = [0, 0]
   \<and> snd (run_handle [Acquire \<lparr>chromiumOptions = None, browserExecutable = None\<rparr>,
                    Settle 0 (RejectedWith (Error ''launch failed'')),
                    Acquire \<lparr>chromiumOptions = None, browserExecutable = None\<rparr>] initial_handle)
     = \<lparr>browserPromise = Some 0,
        promises = [(\<lparr>chromiumOptions = None, browserExecutable = None\<rparr>,
                     RejectedWith (Error ''launch failed''))],
        closed = []\<rparr>
   \<and> browserPromise (snd (run_handle [Acquire \<lparr>chromiumOptions = None, browserExecutable = None\<rparr>,
                    Settle 0 (RejectedWith (Error ''launch failed''))] initial_handle))
     \<noteq> None"
  by (simp add: initial_handle_def getSharedRemotionBrowser_def openBrowser_def settle_def)

text \<open>
  C10. When the cached initialization promise is rejected with \<open>e\<close>,
  \<open>closeSharedRemotionBrowser\<close> throws \<open>e\<close> and leaves the module's state as it was, the
  cached promise included; a call of \<open>getSharedRemotionBrowser\<close> after it returns the same
  promise, rejected with \<open>e\<close>, and starts nothing.
\<close>

theorem teardown_after_failed_init:
  "browserPromise h = Some p \<and> observe h p = RejectedWith e
   \<longrightarrow> closeSharedRemotionBrowser close_fault h = (Some (Inl e), h)
       \<and> browserPromise (snd (closeSharedRemotionBrowser close_fault h)) = Some p
       \<and> getSharedRemotionBrowser options (snd (closeSharedRemotionBrowser close_fault h)) = (p, h)
       \<and> observe (snd (getSharedRemotionBrowser options (snd (closeSharedRemotionBrowser close_fault h)))) p
           = RejectedWith e"
  by (simp add: closeSharedRemotionBrowser_def getSharedRemotionBrowser_def)

theorem teardown_after_failed_init_witness:
  "closeSharedRemotionBrowser None
      \<lparr>browserPromise = Some 0,
       promises = [(\<lparr>chromiumOptions = None, browserExecutable = None\<rparr>,
                    RejectedWith (Error ''launch failed''))],
       closed = []\<rparr>
     = (Some (Inl (Error ''launch failed'')),
        \<lparr>browserPromise = Some 0,
         promises = [(\<lparr>chromiumOptions = None, browserExecutable = None\<rparr>,
                      RejectedWith (Error ''launch failed''))],
         closed = []\<rparr>)
   \<and> fst (getSharedRemotionBrowser \<lparr>chromiumOptions = None, browserExecutable = None\<rparr>
        (snd (closeSharedRemotionBrowser None
          \<lparr>browserPromise = Some 0,
           promises = [(\<lparr>chromiumOptions = None, browserExecutable = None\<rparr>,
                        RejectedWith (Error ''launch failed''))],
           closed = []\<rparr>))) = 0
   \<and> closeSharedRemotionBrowser None initial_handle = (Some (Inr ()), initial_handle)"
proof -
  let ?h = "\<lparr>browserPromise = Some 0,
          promises = [(\<lparr>chromiumOptions = None, browserExecutable = None\<rparr>,
                       RejectedWith (Error ''launch failed''))],
          closed = []\<rparr>"
  have pre: "browserPromise ?h = Some 0 \<and> observe ?h 0 = RejectedWith (Error ''launch failed'')"
    by (simp add: observe_def)
  have n: "closeSharedRemotionBrowser None initial_handle = (Some (Inr ()), initial_handle)"
    by (simp add: closeSharedRemotionBrowser_def initial_handle_def)
  from teardown_after_failed_init[of ?h 0 "Error ''launch failed''" None
         "\<lparr>chromiumOptions = None, browserExecutable = None\<rparr>"] pre
  have t: "closeSharedRemotionBrowser None ?h = (Some (Inl (Error ''launch failed'')), ?h)"
    "getSharedRemotionBrowser \<lparr>chromiumOptions = None, browserExecutable = None\<rparr>
       (snd (closeSharedRemotionBrowser None ?h)) = (0, ?h)"
    by blast+
  have "fst (getSharedRemotionBrowser \<lparr>chromiumOptions = None, browserExecutable = None\<rparr>
       (snd (closeSharedRemotionBrowser None ?h))) = 0"
    unfolding t(2) by simp
  with t(1) n show ?thesis by blast
qed

section \<open>Properties of the worker pool\<close>

lemma first_queued_Some:
  "first_queued js = Some i \<Longrightarrow> i < length js \<and> job_status (js ! i) = Queued"
proof (induction js arbitrary: i)
  case Nil
  then show ?case by simp
next
  case (Cons j js)
  then show ?case by (auto split: if_splits)
qed

lemma held_initial: "held (initial_pool W dd)"
  by (simp add: held_def initial_pool_def)

lemma held_submit: "held p \<Longrightarrow> held (submit k p)"
  by (auto simp add: held_def submit_def nth_append)

lemma held_dequeue:
  assumes "held p"
  shows "held (dequeue w p)"
proof (cases "w < length (workers p) \<and> workers p ! w = None")
  case False
  with assms show ?thesis by (auto simp add: dequeue_def)
next
  case free: True
  show ?thesis
  proof (cases "first_queued (jobs p)")
    case None
    with assms show ?thesis by (simp add: dequeue_def)
  next
    case (Some i)
    then have i: "i < length (jobs p)" using first_queued_Some by blast
    have eq: "dequeue w p = p\<lparr>jobs := (jobs p)[i := (jobs p ! i)\<lparr>job_status := Active\<rparr>],
                            workers := (workers p)[w := Some i]\<rparr>"
      using free Some by (simp add: dequeue_def)
    show ?thesis
      unfolding eq held_def
    proof (intro allI impI)
      fix j
      assume j: "j < length (jobs (p\<lparr>jobs := (jobs p)[i := (jobs p ! i)\<lparr>job_status := Active\<rparr>],
                            workers := (workers p)[w := Some i]\<rparr>))"
        and a: "job_status (jobs (p\<lparr>jobs := (jobs p)[i := (jobs p ! i)\<lparr>job_status := Active\<rparr>],
                            workers := (workers p)[w := Some i]\<rparr>) ! j) = Active"
      show "\<exists>w' < length (workers (p\<lparr>jobs := (jobs p)[i := (jobs p ! i)\<lparr>job_status := Active\<rparr>],
                            workers := (workers p)[w := Some i]\<rparr>)).
               workers (p\<lparr>jobs := (jobs p)[i := (jobs p ! i)\<lparr>job_status := Active\<rparr>],
                            workers := (workers p)[w := Some i]\<rparr>) ! w' = Some j"
      proof (cases "j = i")
        case True
        with free show ?thesis by (intro exI[of _ w]) simp
      next
        case False
        with j a have "j < length (jobs p)" "job_status (jobs p ! j) = Active" by simp_all
        with assms obtain w' where w': "w' < length (workers p)" "workers p ! w' = Some j"
          unfolding held_def by blast
        with free have "w' \<noteq> w" by auto
        with w' show ?thesis by (intro exI[of _ w']) simp
      qed
    qed
  qed
qed

lemma held_finish:
  assumes "held p"
  shows "held (finish w r p)"
proof (cases "w < length (workers p)")
  case False
  with assms show ?thesis by (simp add: finish_def)
next
  case w: True
  show ?thesis
  proof (cases "workers p ! w")
    case None
    with assms w show ?thesis by (simp add: finish_def)
  next
    case (Some i)
    let ?s = "case r of Inl err \<Rightarrow> Failed err | Inr url \<Rightarrow> Completed url"
    have ns: "?s \<noteq> Active" by (cases r) simp_all
    have eq: "finish w r p = p\<lparr>jobs := (jobs p)[i := (jobs p ! i)\<lparr>job_status := ?s\<rparr>],
                            workers := (workers p)[w := None]\<rparr>"
      using w Some by (simp add: finish_def)
    show ?thesis
      unfolding eq held_def
    proof (intro allI impI)
      fix j
      assume j: "j < length (jobs (p\<lparr>jobs := (jobs p)[i := (jobs p ! i)\<lparr>job_status := ?s\<rparr>],
                            workers := (workers p)[w := None]\<rparr>))"
        and a: "job_status (jobs (p\<lparr>jobs := (jobs p)[i := (jobs p ! i)\<lparr>job_status := ?s\<rparr>],
                            workers := (workers p)[w := None]\<rparr>) ! j) = Active"
      have ji: "j \<noteq> i" using j a ns by auto
      with j a have "j < length (jobs p)" "job_status (jobs p ! j) = Active" by simp_all
      with assms obtain w' where w': "w' < length (workers p)" "workers p ! w' = Some j"
        unfolding held_def by blast
      with Some ji have "w' \<noteq> w" by auto
      with w' show "\<exists>w' < length (workers (p\<lparr>jobs := (jobs p)[i := (jobs p ! i)\<lparr>job_status := ?s\<rparr>],
                            workers := (workers p)[w := None]\<rparr>)).
               workers (p\<lparr>jobs := (jobs p)[i := (jobs p ! i)\<lparr>job_status := ?s\<rparr>],
                            workers := (workers p)[w := None]\<rparr>) ! w' = Some j"
        by (intro exI[of _ w']) simp
    qed
  qed
qed

lemma workers_step [simp]: "length (workers (pool_step p ev)) = length (workers p)"
  by (cases ev) (auto simp add: submit_def dequeue_def finish_def split: option.splits)

lemma held_step: "held p \<Longrightarrow> held (pool_step p ev)"
  by (cases ev) (simp_all add: held_submit held_dequeue held_finish)

lemma held_foldl: "held p \<Longrightarrow> held (foldl pool_step p evs)"
  by (induction evs arbitrary: p) (simp_all add: held_step)

lemma workers_foldl: "length (workers (foldl pool_step p evs)) = length (workers p)"
  by (induction evs arbitrary: p) simp_all

lemma held_bound:
  assumes "held p"
  shows "active_count p \<le> length (workers p)"
proof -
  let ?A = "{i. i < length (jobs p) \<and> job_status (jobs p ! i) = Active}"
  have "?A \<subseteq> (\<lambda>w. the (workers p ! w)) ` {..<length (workers p)}"
  proof
    fix i assume "i \<in> ?A"
    with assms obtain w where "w < length (workers p)" "workers p ! w = Some i"
      unfolding held_def by blast
    then show "i \<in> (\<lambda>w. the (workers p ! w)) ` {..<length (workers p)}"
      by (intro image_eqI[of _ _ w]) simp_all
  qed
  then have "card ?A \<le> card ((\<lambda>w. the (workers p ! w)) ` {..<length (workers p)})"
    by (intro card_mono) simp_all
  also have "\<dots> \<le> card {..<length (workers p)}"
    by (rule card_image_le) simp
  finally show ?thesis
    by (simp add: active_count_def length_filter_conv_card)
qed

text \<open>
  C9. In the pool of section 4.5 of the specification with \<open>W\<close> workers, after any
  sequence of submissions, dequeues and completions, and so at every point of any run, at
  most \<open>W\<close> jobs are active.
\<close>

theorem active_jobs_bounded:
  "active_count (run_pool W dd evs) \<le> W
   \<and> (\<forall>n. active_count (run_pool W dd (take n evs)) \<le> W)"
proof -
  have b: "active_count (run_pool W dd es) \<le> W" for es
  proof -
    have "held (run_pool W dd es)"
      unfolding run_pool_def by (intro held_foldl held_initial)
    from held_bound[OF this] show ?thesis
      by (simp add: run_pool_def workers_foldl initial_pool_def)
  qed
  then show ?thesis by blast
qed

theorem active_jobs_bounded_witness:
  "active_count (run_pool 2 False
      [Submit (''alice'', ''dark''), Submit (''bob'', ''dark''), Submit (''carol'', ''light''),
       Dequeue 0, Dequeue 1, Dequeue 0, Dequeue 2, Finish 0 (Inr ''url''), Dequeue 0]) = 2
   \<and> active_count (run_pool 2 False
      [Submit (''alice'', ''dark''), Submit (''bob'', ''dark''), Submit (''carol'', ''light''),
       Dequeue 0, Dequeue 1, Dequeue 0, Dequeue 2, Finish 0 (Inr ''url''), Dequeue 0]) \<le> 2"
proof -
  let ?evs = "[Submit (''alice'', ''dark''), Submit (''bob'', ''dark''), Submit (''carol'', ''light''),
       Dequeue 0, Dequeue 1, Dequeue 0, Dequeue 2, Finish 0 (Inr ''url''), Dequeue 0]"
  have "active_count (run_pool 2 False ?evs) = 2"
    by (simp add: run_pool_def initial_pool_def submit_def dequeue_def finish_def active_count_def
          numeral_2_eq_2)
  with active_jobs_bounded[of 2 False ?evs] show ?thesis by blast
qed

end
